theory Spec2Isabelle
  imports Main "HOL-Library.Sublist"
begin

section \<open>The Redis cache service (redis-cache.service.ts)\<close>

text \<open>
  A shallow embedding of \<^verbatim>\<open>RedisCacheService\<close>. Every method of the class is a function
  from the state before the call to the outcome and the state after it. A rejected promise
  (a \<^verbatim>\<open>throw\<close>) is the left summand of the outcome, a resolved one the right summand.
  Strings are lists of characters, counts are natural numbers and a TTL is an integer
  number of seconds. The handlers that log connection events, \<^verbatim>\<open>onModuleDestroy\<close> and
  \<^verbatim>\<open>getClient\<close> touch nothing that the methods read and are left out.

  The ioredis client, \<^verbatim>\<open>JSON.stringify\<close>/\<^verbatim>\<open>JSON.parse\<close> and the caller's compute function
  are not code of the service: they are parameters of the model.

  Commands are sequentialised: a command issued on the connection takes effect on the
  store when it is issued, whether the service awaits its reply or not (ioredis sends the
  commands of one connection in the order they were issued). In fire-and-forget mode the
  reply is dropped and a failure reaches only the logger, after the synchronous part of
  the call.
\<close>

subsection \<open>Errors, log entries, state\<close>

datatype error =
    TransportError string   \<comment> \<open>a command rejected by the client\<close>
  | SyntaxError string      \<comment> \<open>thrown by \<^verbatim>\<open>JSON.parse\<close>\<close>
  | TypeError string        \<comment> \<open>thrown by \<^verbatim>\<open>JSON.stringify\<close>\<close>
  | ComputeError string     \<comment> \<open>thrown by the caller's compute function\<close>
  | RangeError string       \<comment> \<open>thrown by a call with more arguments than the engine passes\<close>

fun message :: "error \<Rightarrow> string" where
  "message (TransportError m) = m"
| "message (SyntaxError m) = m"
| "message (TypeError m) = m"
| "message (ComputeError m) = m"
| "message (RangeError m) = m"

definition rangeError :: error where
  "rangeError = RangeError ''Maximum call stack size exceeded''"

datatype log_entry =
    LogError string error   \<comment> \<open>\<^verbatim>\<open>this.logger.error(msg, err)\<close>\<close>
  | LogDebug string         \<comment> \<open>\<^verbatim>\<open>this.logger.debug(msg)\<close>\<close>
  | LogInfo string          \<comment> \<open>\<^verbatim>\<open>this.logger.log(msg)\<close>\<close>

record 'w state =
  world :: 'w                 \<comment> \<open>the remote store and the connection, as the client sees them\<close>
  logs :: "log_entry list"    \<comment> \<open>what the logger has received, oldest first\<close>

subsection \<open>The collaborators\<close>

text \<open>
  The ioredis client: \<^verbatim>\<open>this.client\<close>. Each command maps the world to a reply and a new
  world. \<^verbatim>\<open>redis_set\<close> takes the expiry of the \<^verbatim>\<open>'EX'\<close> form when there is one; \<^verbatim>\<open>redis_scan\<close>
  takes the cursor, the \<^verbatim>\<open>MATCH\<close> pattern and the \<^verbatim>\<open>COUNT\<close> hint and replies with the next
  cursor and a batch of keys.

  \<^verbatim>\<open>this.client.del(...keys)\<close> spreads a list into the arguments of one call. The engine
  passes a bounded number of arguments and throws \<^verbatim>\<open>RangeError\<close>, at the call and before any
  command is sent, when the list is longer. The bound depends on the engine; it is kept
  with the client as \<open>maxArguments\<close>.
\<close>

record 'w client =
  redis_keyPrefix :: "string option"
  maxArguments :: nat
  redis_status :: "'w \<Rightarrow> string"
  redis_get :: "string \<Rightarrow> 'w \<Rightarrow> (error + string option) \<times> 'w"
  redis_set :: "string \<Rightarrow> string \<Rightarrow> int option \<Rightarrow> 'w \<Rightarrow> (error + unit) \<times> 'w"
  redis_del :: "string list \<Rightarrow> 'w \<Rightarrow> (error + nat) \<times> 'w"
  redis_scan :: "string \<Rightarrow> string \<Rightarrow> nat \<Rightarrow> 'w \<Rightarrow> (error + string \<times> string list) \<times> 'w"
  redis_flushdb :: "'w \<Rightarrow> (error + unit) \<times> 'w"
  redis_dbsize :: "'w \<Rightarrow> (error + nat) \<times> 'w"
  redis_info :: "string \<Rightarrow> 'w \<Rightarrow> (error + string) \<times> 'w"

text \<open>
  \<^verbatim>\<open>JSON.stringify\<close> (with the client's conversion of its result to the payload sent),
  \<^verbatim>\<open>JSON.parse\<close> and the value \<^verbatim>\<open>null\<close>, over the type \<open>'v\<close> of JavaScript values.
\<close>

record 'v json =
  stringify :: "'v \<Rightarrow> error + string"
  parse :: "string \<Rightarrow> error + 'v"
  js_null :: 'v

subsection \<open>Configuration and construction\<close>

record CacheOperationOptions =
  op_fireAndForget :: "bool option"

record RedisCacheModuleOptions =
  cfg_ttl :: "int option"
  cfg_fireAndForget :: "bool option"
  cfg_debug :: "bool option"

record 'w service =
  client :: "'w client"
  defaultTtl :: "int option"
  fireAndForget :: bool
  debug :: bool

text \<open>The constructor, with the client it creates taken as an argument.\<close>

definition RedisCacheService :: "RedisCacheModuleOptions \<Rightarrow> 'w client \<Rightarrow> 'w service" where
  "RedisCacheService options cl =
     \<lparr> client = cl,
       defaultTtl = cfg_ttl options,
       fireAndForget = (case cfg_fireAndForget options of Some b \<Rightarrow> b | None \<Rightarrow> False),
       debug = (case cfg_debug options of Some b \<Rightarrow> b | None \<Rightarrow> False) \<rparr>"

subsection \<open>Logging and string helpers\<close>

definition logError :: "string \<Rightarrow> error \<Rightarrow> 'w state \<Rightarrow> 'w state" where
  "logError msg err s = s\<lparr>logs := logs s @ [LogError msg err]\<rparr>"

text \<open>\<^verbatim>\<open>this.debug && this.logger.debug(msg)\<close>\<close>

definition logDebug :: "'w service \<Rightarrow> string \<Rightarrow> 'w state \<Rightarrow> 'w state" where
  "logDebug svc msg s = (if debug svc then s\<lparr>logs := logs s @ [LogDebug msg]\<rparr> else s)"

text \<open>A number inside a template literal: decimal digits, with a sign when negative.\<close>

fun natToString :: "nat \<Rightarrow> string" where
  "natToString n =
     (if n < 10 then [''0123456789'' ! n]
      else natToString (n div 10) @ [''0123456789'' ! (n mod 10)])"

declare natToString.simps [simp del]

definition intToString :: "int \<Rightarrow> string" where
  "intToString i = (if i < 0 then CHR ''-'' # natToString (nat (- i)) else natToString (nat i))"

text \<open>\<^verbatim>\<open>keys.join(', ')\<close>\<close>

fun join :: "string list \<Rightarrow> string" where
  "join [] = []"
| "join [k] = k"
| "join (k # ks) = k @ '', '' @ join ks"

text \<open>
  \<^verbatim>\<open>options?.fireAndForget !== undefined ? options.fireAndForget : this.fireAndForget\<close>,
  the first statement of \<^verbatim>\<open>set\<close>, \<^verbatim>\<open>delKey\<close>, \<^verbatim>\<open>delKeys\<close> and \<^verbatim>\<open>reset\<close>.
\<close>

definition useFireAndForget :: "'w service \<Rightarrow> CacheOperationOptions option \<Rightarrow> bool" where
  "useFireAndForget svc options =
     (case options of
        None \<Rightarrow> fireAndForget svc
      | Some opts \<Rightarrow> (case op_fireAndForget opts of Some b \<Rightarrow> b | None \<Rightarrow> fireAndForget svc))"

subsection \<open>get, set, getOrSet\<close>

definition get :: "'v json \<Rightarrow> 'w service \<Rightarrow> string \<Rightarrow> 'w state \<Rightarrow> (error + 'v) \<times> 'w state" where
  "get j svc key s =
     (case redis_get (client svc) key (world s) of
        (Inl e, w) \<Rightarrow> (Inl e, logError (''Error getting key '' @ key @ '':'') e (s\<lparr>world := w\<rparr>))
      | (Inr None, w) \<Rightarrow>
          (Inr (js_null j), logDebug svc (''GET key: '' @ key @ '' - MISS'') (s\<lparr>world := w\<rparr>))
      | (Inr (Some val), w) \<Rightarrow>
          (let s1 = logDebug svc (''GET key: '' @ key @ '' - HIT'') (s\<lparr>world := w\<rparr>)
           in case parse j val of
                Inl e \<Rightarrow> (Inl e, logError (''Error getting key '' @ key @ '':'') e s1)
              | Inr v \<Rightarrow> (Inr v, s1)))"

text \<open>\<^verbatim>\<open>const ttlToUse = ttl ?? this.defaultTtl\<close>\<close>

definition ttlToUse :: "'w service \<Rightarrow> int option \<Rightarrow> int option" where
  "ttlToUse svc ttl = (case ttl of Some t \<Rightarrow> Some t | None \<Rightarrow> defaultTtl svc)"

text \<open>
  \<^verbatim>\<open>ttlToUse ? this.client.set(key, serialized, 'EX', ttlToUse) : this.client.set(key, serialized)\<close>:
  an absent expiry and the expiry 0 are both falsy.
\<close>

definition issueSet :: "'w client \<Rightarrow> string \<Rightarrow> string \<Rightarrow> int option \<Rightarrow> 'w \<Rightarrow> (error + unit) \<times> 'w" where
  "issueSet cl key serialized t w =
     (case t of
        Some n \<Rightarrow> (if n \<noteq> 0 then redis_set cl key serialized (Some n) w
                   else redis_set cl key serialized None w)
      | None \<Rightarrow> redis_set cl key serialized None w)"

text \<open>\<^verbatim>\<open>${ttlToUse || 'none'}\<close>\<close>

definition ttlText :: "int option \<Rightarrow> string" where
  "ttlText t = (case t of Some n \<Rightarrow> (if n \<noteq> 0 then intToString n else ''none'') | None \<Rightarrow> ''none'')"

definition set_cache ::
  "'v json \<Rightarrow> 'w service \<Rightarrow> string \<Rightarrow> 'v \<Rightarrow> int option \<Rightarrow> CacheOperationOptions option \<Rightarrow>
   'w state \<Rightarrow> (error + unit) \<times> 'w state" where
  "set_cache j svc key val ttl options s =
     (case stringify j val of
        Inl e \<Rightarrow> (Inl e, logError (''Error setting key '' @ key @ '':'') e s)
      | Inr serialized \<Rightarrow>
          (let t = ttlToUse svc ttl;
               s1 = logDebug svc (''SET key: '' @ key @ '', ttl: '' @ ttlText t @ ''s'') s;
               (r, w) = issueSet (client svc) key serialized t (world s1);
               s2 = s1\<lparr>world := w\<rparr>
           in if useFireAndForget svc options
              then (Inr (),
                    (case r of Inl e \<Rightarrow> logError (''Error setting key '' @ key @ '':'') e s2
                             | Inr _ \<Rightarrow> s2))
              else (case r of
                      Inl e \<Rightarrow> (Inl e, logError (''Error setting key '' @ key @ '':'') e s2)
                    | Inr _ \<Rightarrow> (Inr (), s2))))"

text \<open>
  The compute function \<^verbatim>\<open>fn\<close> is the caller's: it may fail and it may do anything to
  the state.
\<close>

definition getOrSet ::
  "'v json \<Rightarrow> 'w service \<Rightarrow> string \<Rightarrow> ('w state \<Rightarrow> (error + 'v) \<times> 'w state) \<Rightarrow> int option \<Rightarrow>
   'w state \<Rightarrow> (error + 'v) \<times> 'w state" where
  "getOrSet j svc key fn ttl s =
     (case redis_get (client svc) key (world s) of
        (Inl e, w) \<Rightarrow>
          (Inl e, logError (''Error in getOrSet for key '' @ key @ '':'') e (s\<lparr>world := w\<rparr>))
      | (Inr (Some val), w) \<Rightarrow>
          (let s1 = logDebug svc (''GETORSET key: '' @ key @ '' - HIT'') (s\<lparr>world := w\<rparr>)
           in case parse j val of
                Inl e \<Rightarrow> (Inl e, logError (''Error in getOrSet for key '' @ key @ '':'') e s1)
              | Inr v \<Rightarrow> (Inr v, s1))
      | (Inr None, w) \<Rightarrow>
          (let s1 = logDebug svc (''GETORSET key: '' @ key @ '' - computing value'') (s\<lparr>world := w\<rparr>)
           in case fn s1 of
                (Inl e, s2) \<Rightarrow>
                  (Inl e, logError (''Error in getOrSet for key '' @ key @ '':'') e s2)
              | (Inr result, s2) \<Rightarrow>
                  (case set_cache j svc key result ttl None s2 of
                     (Inl e, s3) \<Rightarrow>
                       (Inl e, logError (''Error in getOrSet for key '' @ key @ '':'') e s3)
                   | (Inr _, s3) \<Rightarrow> (Inr result, s3))))"

subsection \<open>delKey, delKeys\<close>

definition delKey ::
  "'w service \<Rightarrow> string \<Rightarrow> CacheOperationOptions option \<Rightarrow> 'w state \<Rightarrow> (error + nat) \<times> 'w state" where
  "delKey svc key options s =
     (let s1 = logDebug svc (''DEL key: '' @ key) s;
          (r, w) = redis_del (client svc) [key] (world s1);
          s2 = s1\<lparr>world := w\<rparr>
      in if useFireAndForget svc options
         then (Inr 0,
               (case r of Inl e \<Rightarrow> logError (''Error deleting key '' @ key @ '':'') e s2
                        | Inr _ \<Rightarrow> s2))
         else (case r of
                 Inl e \<Rightarrow> (Inl e, logError (''Error deleting key '' @ key @ '':'') e s2)
               | Inr result \<Rightarrow>
                   (Inr result,
                    logDebug svc (''DEL key: '' @ key @ '' - deleted: '' @ natToString result) s2)))"

definition delKeys ::
  "'w service \<Rightarrow> string list \<Rightarrow> CacheOperationOptions option \<Rightarrow> 'w state \<Rightarrow>
   (error + nat) \<times> 'w state" where
  "delKeys svc keys options s =
     (if length keys = 0 then (Inr 0, s)
      else
        (let s1 = logDebug svc (''DEL keys: ['' @ join keys @ ''] ('' @ natToString (length keys)
                                  @ '' keys)'') s
         in if maxArguments (client svc) < length keys
            then (Inl rangeError, logError ''Error deleting keys:'' rangeError s1)
            else
              (let (r, w) = redis_del (client svc) keys (world s1);
                   s2 = s1\<lparr>world := w\<rparr>
               in if useFireAndForget svc options
                  then (Inr 0,
                        (case r of Inl e \<Rightarrow> logError ''Error deleting keys:'' e s2 | Inr _ \<Rightarrow> s2))
                  else (case r of
                          Inl e \<Rightarrow> (Inl e, logError ''Error deleting keys:'' e s2)
                        | Inr result \<Rightarrow>
                            (Inr result,
                             logDebug svc (''DEL keys - deleted: '' @ natToString result) s2)))))"

subsection \<open>Pattern scanning: delPattern, delPatterns, getKeysByPattern\<close>

text \<open>
  \<^verbatim>\<open>key.replace(keyPrefix, '')\<close>: \<^verbatim>\<open>String.prototype.replace\<close> with a string pattern
  replaces the first occurrence of the pattern, wherever in the string it is.
\<close>

fun replace :: "string \<Rightarrow> string \<Rightarrow> string" where
  "replace pat [] = []"
| "replace pat (c # cs) =
     (if prefix pat (c # cs) then drop (length pat) (c # cs) else c # replace pat cs)"

text \<open>
  \<^verbatim>\<open>keyPrefix ? keys.map(key => key.replace(keyPrefix, '')) : keys\<close>: the empty prefix is
  falsy.
\<close>

definition keysWithoutPrefix :: "string \<Rightarrow> string list \<Rightarrow> string list" where
  "keysWithoutPrefix keyPrefix keys =
     (if keyPrefix \<noteq> [] then map (replace keyPrefix) keys else keys)"

text \<open>
  The \<^verbatim>\<open>do { ... } while (cursor !== '0')\<close> loop, the same text in \<^verbatim>\<open>delPattern\<close> and in
  \<^verbatim>\<open>getKeysByPattern\<close>. Nothing bounds the number of rounds: the loop is a partial
  function, and \<open>None\<close> is the run that never ends. A failed scan leaves the loop with the
  error. \<^verbatim>\<open>allKeys.push(...keysWithoutPrefix)\<close> appends one batch: the reply to a scan with
  \<^verbatim>\<open>COUNT 100\<close> is taken to be shorter than the engine's bound on arguments.
\<close>

partial_function (option) scanLoop ::
  "'w client \<Rightarrow> string \<Rightarrow> string \<Rightarrow> string \<Rightarrow> string list \<Rightarrow> 'w \<Rightarrow>
   ((error + string list) \<times> 'w) option" where
  "scanLoop cl keyPrefix fullPattern cursor allKeys w =
     (case redis_scan cl cursor fullPattern 100 w of
        (Inl e, w') \<Rightarrow> Some (Inl e, w')
      | (Inr (cursor', keys), w') \<Rightarrow>
          (let allKeys' = (if length keys > 0 then allKeys @ keysWithoutPrefix keyPrefix keys
                           else allKeys)
           in if cursor' \<noteq> ''0'' then scanLoop cl keyPrefix fullPattern cursor' allKeys' w'
              else Some (Inr allKeys', w')))"

declare scanLoop.simps [code]

text \<open>\<^verbatim>\<open>this.client.options.keyPrefix || ''\<close>\<close>

definition keyPrefixOf :: "'w client \<Rightarrow> string" where
  "keyPrefixOf cl = (case redis_keyPrefix cl of Some p \<Rightarrow> p | None \<Rightarrow> [])"

definition delPattern ::
  "'w service \<Rightarrow> string \<Rightarrow> 'w state \<Rightarrow> ((error + nat) \<times> 'w state) option" where
  "delPattern svc pattern s =
     (let keyPrefix = keyPrefixOf (client svc);
          fullPattern = keyPrefix @ pattern
      in case scanLoop (client svc) keyPrefix fullPattern ''0'' [] (world s) of
           None \<Rightarrow> None
         | Some (Inl e, w) \<Rightarrow>
             Some (Inl e, logError (''Error deleting pattern '' @ pattern @ '':'') e (s\<lparr>world := w\<rparr>))
         | Some (Inr allKeys, w) \<Rightarrow>
             (let s1 = s\<lparr>world := w\<rparr>
              in if length allKeys = 0
                 then Some (Inr 0, logDebug svc (''DEL pattern: '' @ pattern @ '' - no keys found'') s1)
                 else if maxArguments (client svc) < length allKeys
                 then Some (Inl rangeError,
                            logError (''Error deleting pattern '' @ pattern @ '':'') rangeError s1)
                 else
                   (let (r, w') = redis_del (client svc) allKeys (world s1);
                        s2 = s1\<lparr>world := w'\<rparr>
                    in if fireAndForget svc
                       then
                         (let s3 = logDebug svc (''DEL pattern: '' @ pattern @ '' - deleted ''
                                                   @ natToString 0 @ '' keys'') s2
                          in Some (Inr 0,
                                   (case r of
                                      Inl e \<Rightarrow> logError (''Error deleting pattern '' @ pattern @ '':'') e s3
                                    | Inr _ \<Rightarrow> s3)))
                       else
                         (case r of
                            Inl e \<Rightarrow>
                              Some (Inl e, logError (''Error deleting pattern '' @ pattern @ '':'') e s2)
                          | Inr totalDeleted \<Rightarrow>
                              Some (Inr totalDeleted,
                                    logDebug svc (''DEL pattern: '' @ pattern @ '' - deleted ''
                                                    @ natToString totalDeleted @ '' keys'') s2)))))"

text \<open>The \<^verbatim>\<open>for (const pattern of patterns)\<close> loop of \<^verbatim>\<open>delPatterns\<close>.\<close>

fun delPatternsLoop ::
  "'w service \<Rightarrow> string list \<Rightarrow> nat \<Rightarrow> 'w state \<Rightarrow> ((error + nat) \<times> 'w state) option" where
  "delPatternsLoop svc [] totalDeleted s = Some (Inr totalDeleted, s)"
| "delPatternsLoop svc (pattern # patterns) totalDeleted s =
     (case delPattern svc pattern s of
        None \<Rightarrow> None
      | Some (Inl e, s') \<Rightarrow> Some (Inl e, s')
      | Some (Inr deleted, s') \<Rightarrow> delPatternsLoop svc patterns (totalDeleted + deleted) s')"

definition delPatterns ::
  "'w service \<Rightarrow> string list \<Rightarrow> 'w state \<Rightarrow> ((error + nat) \<times> 'w state) option" where
  "delPatterns svc patterns s =
     (if length patterns = 0 then Some (Inr 0, s)
      else
        (let s1 = logDebug svc (''DEL patterns: ['' @ join patterns @ '']'') s
         in case delPatternsLoop svc patterns 0 s1 of
              None \<Rightarrow> None
            | Some (Inl e, s2) \<Rightarrow> Some (Inl e, logError ''Error deleting patterns:'' e s2)
            | Some (Inr totalDeleted, s2) \<Rightarrow>
                Some (Inr totalDeleted,
                      logDebug svc (''DEL patterns - total deleted: '' @ natToString totalDeleted) s2)))"

definition getKeysByPattern ::
  "'w service \<Rightarrow> string \<Rightarrow> 'w state \<Rightarrow> ((error + string list) \<times> 'w state) option" where
  "getKeysByPattern svc pattern s =
     (let keyPrefix = keyPrefixOf (client svc);
          fullPattern = keyPrefix @ pattern
      in case scanLoop (client svc) keyPrefix fullPattern ''0'' [] (world s) of
           None \<Rightarrow> None
         | Some (Inl e, w) \<Rightarrow>
             Some (Inl e,
                   logError (''Error getting keys by pattern '' @ pattern @ '':'') e (s\<lparr>world := w\<rparr>))
         | Some (Inr allKeys, w) \<Rightarrow>
             Some (Inr allKeys,
                   logDebug svc (''GET keys by pattern: '' @ pattern @ '' - found ''
                                   @ natToString (length allKeys) @ '' keys'') (s\<lparr>world := w\<rparr>)))"

subsection \<open>reset\<close>

definition reset ::
  "'w service \<Rightarrow> CacheOperationOptions option \<Rightarrow> 'w state \<Rightarrow> (error + unit) \<times> 'w state" where
  "reset svc options s =
     (let s1 = logDebug svc ''RESET - clearing all cache'' s;
          (r, w) = redis_flushdb (client svc) (world s1);
          s2 = s1\<lparr>world := w\<rparr>
      in if useFireAndForget svc options
         then
           (let s3 = logDebug svc ''RESET - cache cleared'' s2
            in (Inr (), (case r of Inl e \<Rightarrow> logError ''Error resetting cache:'' e s3 | Inr _ \<Rightarrow> s3)))
         else
           (case r of
              Inl e \<Rightarrow> (Inl e, logError ''Error resetting cache:'' e s2)
            | Inr _ \<Rightarrow> (Inr (), logDebug svc ''RESET - cache cleared'' s2)))"

subsection \<open>getStats\<close>

record StatsSnapshot =
  connected :: bool
  keyCount :: nat
  memoryUsed :: "string option"
  memoryPeak :: "string option"
  memoryFragmentationRatio :: "string option"
  error :: "string option"

text \<open>
  \<^verbatim>\<open>info.match(new RegExp(`${key}:(.+)`))\<close>: the leftmost place where the key and a colon
  are followed by at least one character that is not a line terminator; the group is the
  longest run of such characters. The three keys asked for have no character that is
  special in a regular expression.
\<close>

definition lineTerminator :: "char \<Rightarrow> bool" where
  "lineTerminator c = (c = CHR 0x0A \<or> c = CHR 0x0D)"

definition matchAt :: "string \<Rightarrow> string \<Rightarrow> string option" where
  "matchAt key s =
     (if prefix (key @ '':'') s
      then (let grp = takeWhile (\<lambda>c. \<not> lineTerminator c) (drop (length key + 1) s)
            in if grp = [] then None else Some grp)
      else None)"

fun match :: "string \<Rightarrow> string \<Rightarrow> string option" where
  "match key [] = None"
| "match key (c # cs) =
     (case matchAt key (c # cs) of Some grp \<Rightarrow> Some grp | None \<Rightarrow> match key cs)"

text \<open>\<^verbatim>\<open>String.prototype.trim\<close>, on the white space of ASCII.\<close>

definition whiteSpace :: "char \<Rightarrow> bool" where
  "whiteSpace c = (c = CHR '' '' \<or> c = CHR 0x09 \<or> c = CHR 0x0A \<or> c = CHR 0x0B \<or> c = CHR 0x0C
                   \<or> c = CHR 0x0D)"

definition trim :: "string \<Rightarrow> string" where
  "trim s = rev (dropWhile whiteSpace (rev (dropWhile whiteSpace s)))"

definition parseMemoryInfo :: "string \<Rightarrow> string \<Rightarrow> string option" where
  "parseMemoryInfo info key = (case match key info of Some grp \<Rightarrow> Some (trim grp) | None \<Rightarrow> None)"

text \<open>The \<^verbatim>\<open>catch\<close> block of \<^verbatim>\<open>getStats\<close>.\<close>

definition statsCaught :: "error \<Rightarrow> 'w state \<Rightarrow> (error + StatsSnapshot) \<times> 'w state" where
  "statsCaught e s =
     (Inr \<lparr> connected = False, keyCount = 0, memoryUsed = None, memoryPeak = None,
            memoryFragmentationRatio = None, error = Some (message e) \<rparr>,
      logError ''Error getting cache stats:'' e s)"

definition getStats :: "'w service \<Rightarrow> 'w state \<Rightarrow> (error + StatsSnapshot) \<times> 'w state" where
  "getStats svc s =
     (let connected' = (redis_status (client svc) (world s) = ''ready'')
      in if \<not> connected'
         then (Inr \<lparr> connected = False, keyCount = 0, memoryUsed = None, memoryPeak = None,
                     memoryFragmentationRatio = None, error = Some ''Redis not connected'' \<rparr>, s)
         else
           (case redis_dbsize (client svc) (world s) of
              (Inl e, w) \<Rightarrow> statsCaught e (s\<lparr>world := w\<rparr>)
            | (Inr keyCount', w) \<Rightarrow>
                (case redis_info (client svc) ''memory'' w of
                   (Inl e, w') \<Rightarrow> statsCaught e (s\<lparr>world := w'\<rparr>)
                 | (Inr memoryInfo, w') \<Rightarrow>
                     (let memoryUsed' = parseMemoryInfo memoryInfo ''used_memory_human'';
                          memoryPeak' = parseMemoryInfo memoryInfo ''used_memory_peak_human'';
                          memoryFragmentationRatio' =
                            parseMemoryInfo memoryInfo ''mem_fragmentation_ratio''
                      in (Inr \<lparr> connected = connected', keyCount = keyCount',
                                 memoryUsed = memoryUsed', memoryPeak = memoryPeak',
                                 memoryFragmentationRatio = memoryFragmentationRatio',
                                 error = None \<rparr>,
                          logDebug svc (''STATS - keys: '' @ natToString keyCount' @ '', memory: ''
                                          @ (case memoryUsed' of Some m \<Rightarrow> m | None \<Rightarrow> ''undefined''))
                            (s\<lparr>world := w'\<rparr>))))))"

section \<open>The cursor protocol\<close>

text \<open>
  The store's side of an enumeration, in the words of the protocol: from a cursor and a
  state of the store, successive \<^verbatim>\<open>SCAN\<close> calls reply with the batches listed, each but the
  last with a cursor other than the start cursor \<^verbatim>\<open>"0"\<close>, the last with the start cursor.
\<close>

inductive scanRun :: "'w client \<Rightarrow> string \<Rightarrow> string \<Rightarrow> 'w \<Rightarrow> string list list \<Rightarrow> 'w \<Rightarrow> bool"
  for cl :: "'w client" and fullPattern :: string where
  sentinel:
    "redis_scan cl cursor fullPattern 100 w = (Inr (''0'', keys), w') \<Longrightarrow>
     scanRun cl fullPattern cursor w [keys] w'"
| continue:
    "redis_scan cl cursor fullPattern 100 w = (Inr (cursor', keys), w') \<Longrightarrow>
     cursor' \<noteq> ''0'' \<Longrightarrow>
     scanRun cl fullPattern cursor' w' batches w'' \<Longrightarrow>
     scanRun cl fullPattern cursor w (keys # batches) w''"

code_pred scanRun .

section \<open>Concrete collaborators\<close>

text \<open>
  Small instances of the parameters, on which the service runs on concrete inputs.
\<close>

subsection \<open>An in-memory store\<close>

text \<open>
  The store holds its entries under their physical keys. The client prepends its key
  prefix to the keys of \<^verbatim>\<open>GET\<close>, \<^verbatim>\<open>SET\<close> and \<^verbatim>\<open>DEL\<close>, and leaves the pattern of \<^verbatim>\<open>SCAN\<close>
  and the keys it replies with as they are. A scan answers in one round. When \<open>budget\<close> is
  \<open>Some n\<close>, the connection serves \<open>n\<close> more commands and rejects every later one. The
  engine of the concrete clients passes up to 100000 arguments in one call.
\<close>

record mem =
  entries :: "(string \<times> string) list"
  ready :: bool
  budget :: "nat option"

definition serve :: "mem \<Rightarrow> mem option" where
  "serve m =
     (case budget m of
        None \<Rightarrow> Some m
      | Some n \<Rightarrow> (if n = 0 then None else Some (m\<lparr>budget := Some (n - 1)\<rparr>)))"

definition closed :: error where
  "closed = TransportError ''Connection is closed.''"

text \<open>Glob matching with \<^verbatim>\<open>*\<close> and \<^verbatim>\<open>?\<close>.\<close>

fun glob :: "string \<Rightarrow> string \<Rightarrow> bool" where
  "glob [] s = (s = [])"
| "glob (p # ps) [] = (p = CHR ''*'' \<and> glob ps [])"
| "glob (p # ps) (c # cs) =
     (if p = CHR ''*'' then glob ps (c # cs) \<or> glob (p # ps) cs
      else (p = CHR ''?'' \<or> p = c) \<and> glob ps cs)"

definition physical :: "string option \<Rightarrow> string \<Rightarrow> string" where
  "physical kp key = (case kp of Some p \<Rightarrow> p @ key | None \<Rightarrow> key)"

definition memClient :: "string option \<Rightarrow> mem client" where
  "memClient kp =
     \<lparr> redis_keyPrefix = kp,
       maxArguments = 100000,
       redis_status = (\<lambda>m. if ready m then ''ready'' else ''end''),
       redis_get = (\<lambda>key m.
         case serve m of
           None \<Rightarrow> (Inl closed, m)
         | Some m' \<Rightarrow> (Inr (map_of (entries m') (physical kp key)), m')),
       redis_set = (\<lambda>key payload ex m.
         case serve m of
           None \<Rightarrow> (Inl closed, m)
         | Some m' \<Rightarrow>
             (Inr (),
              m'\<lparr>entries := (physical kp key, payload)
                              # filter (\<lambda>(k, _). k \<noteq> physical kp key) (entries m')\<rparr>)),
       redis_del = (\<lambda>keys m.
         case serve m of
           None \<Rightarrow> (Inl closed, m)
         | Some m' \<Rightarrow>
             (Inr (length (filter (\<lambda>(k, _). k \<in> set (map (physical kp) keys)) (entries m'))),
              m'\<lparr>entries := filter (\<lambda>(k, _). k \<notin> set (map (physical kp) keys)) (entries m')\<rparr>)),
       redis_scan = (\<lambda>cursor pat count m.
         case serve m of
           None \<Rightarrow> (Inl closed, m)
         | Some m' \<Rightarrow> (Inr (''0'', filter (glob pat) (map fst (entries m'))), m')),
       redis_flushdb = (\<lambda>m.
         case serve m of
           None \<Rightarrow> (Inl closed, m)
         | Some m' \<Rightarrow> (Inr (), m'\<lparr>entries := []\<rparr>)),
       redis_dbsize = (\<lambda>m.
         case serve m of
           None \<Rightarrow> (Inl closed, m)
         | Some m' \<Rightarrow> (Inr (length (entries m')), m')),
       redis_info = (\<lambda>section m.
         case serve m of
           None \<Rightarrow> (Inl closed, m)
         | Some m' \<Rightarrow> (Inr ''# Memory\<newline>used_memory_human:1.05M\<newline>'', m')) \<rparr>"

subsection \<open>A client with scripted scan replies\<close>

text \<open>
  The world is the list of the replies that the coming scans will get; a scan past the
  end of the script gets the start cursor and no key. A delete reports every key deleted.
\<close>

definition scriptedClient ::
  "string option \<Rightarrow> ((error + string \<times> string list) list) client" where
  "scriptedClient kp =
     \<lparr> redis_keyPrefix = kp,
       maxArguments = 100000,
       redis_status = (\<lambda>w. ''ready''),
       redis_get = (\<lambda>key w. (Inr None, w)),
       redis_set = (\<lambda>key payload ex w. (Inr (), w)),
       redis_del = (\<lambda>keys w. (Inr (length keys), w)),
       redis_scan = (\<lambda>cursor pat count w.
         case w of [] \<Rightarrow> (Inr (''0'', []), []) | r # rs \<Rightarrow> (r, rs)),
       redis_flushdb = (\<lambda>w. (Inr (), w)),
       redis_dbsize = (\<lambda>w. (Inr 0, w)),
       redis_info = (\<lambda>section w. (Inr [], w)) \<rparr>"

text \<open>A client whose scans never reply with the start cursor.\<close>

definition loopingClient :: "unit client" where
  "loopingClient = \<lparr> redis_keyPrefix = None,
       maxArguments = 100000,
       redis_status = (\<lambda>w. ''ready''),
       redis_get = (\<lambda>key w. (Inr None, w)),
       redis_set = (\<lambda>key payload ex w. (Inr (), w)),
       redis_del = (\<lambda>keys w. (Inr 0, w)),
       redis_scan = (\<lambda>cursor pat count w. (Inr (''1'', []), w)),
       redis_flushdb = (\<lambda>w. (Inr (), w)),
       redis_dbsize = (\<lambda>w. (Inr 0, w)),
       redis_info = (\<lambda>section w. (Inr [], w)) \<rparr>"

subsection \<open>A fragment of JSON\<close>

text \<open>
  The values \<^verbatim>\<open>null\<close>, \<^verbatim>\<open>true\<close> and \<^verbatim>\<open>false\<close>, strings, the number \<^verbatim>\<open>NaN\<close> and BigInt
  values. \<^verbatim>\<open>JSON.stringify\<close> writes \<^verbatim>\<open>NaN\<close> as \<^verbatim>\<open>null\<close> and throws \<^verbatim>\<open>TypeError\<close> on a
  BigInt. Strings are written between double quotes; a string with a double quote or a
  backslash in it is outside the fragment.
\<close>

datatype jsvalue = JNull | JBool bool | JString string | JNaN | JBigInt int

definition plain :: "string \<Rightarrow> bool" where
  "plain s = (CHR 0x22 \<notin> set s \<and> CHR 0x5C \<notin> set s)"

definition miniJson :: "jsvalue json" where
  "miniJson =
     \<lparr> stringify = (\<lambda>v.
         case v of
           JNull \<Rightarrow> Inr ''null''
         | JBool b \<Rightarrow> Inr (if b then ''true'' else ''false'')
         | JString str \<Rightarrow>
             (if plain str then Inr ([CHR 0x22] @ str @ [CHR 0x22])
              else Inl (TypeError ''outside the fragment''))
         | JNaN \<Rightarrow> Inr ''null''
         | JBigInt n \<Rightarrow> Inl (TypeError ''Do not know how to serialize a BigInt'')),
       parse = (\<lambda>text.
         if text = ''null'' then Inr JNull
         else if text = ''true'' then Inr (JBool True)
         else if text = ''false'' then Inr (JBool False)
         else if 2 \<le> length text \<and> hd text = CHR 0x22 \<and> last text = CHR 0x22
                 \<and> plain (butlast (tl text))
         then Inr (JString (butlast (tl text)))
         else Inl (SyntaxError ''Unexpected token'')),
       js_null = JNull \<rparr>"

subsection \<open>Services, stores and compute functions\<close>

text \<open>
  Services on the in-memory client without a key prefix: one with every option left out,
  and one whose default is fire-and-forget.
\<close>

definition plainService :: "mem service" where
  "plainService =
     RedisCacheService \<lparr>cfg_ttl = None, cfg_fireAndForget = None, cfg_debug = None\<rparr>
       (memClient None)"

definition detachedService :: "mem service" where
  "detachedService =
     RedisCacheService \<lparr>cfg_ttl = None, cfg_fireAndForget = Some True, cfg_debug = None\<rparr>
       (memClient None)"

text \<open>
  Services on the in-memory client with the key prefix \<^verbatim>\<open>app:\<close>, blocking and
  fire-and-forget; a service whose key prefix \<^verbatim>\<open>?:\<close> has a character that is special in a
  \<^verbatim>\<open>MATCH\<close> pattern; a service on the scripted client with the key prefix \<^verbatim>\<open>app:\<close>.
\<close>

definition appService :: "mem service" where
  "appService =
     RedisCacheService \<lparr>cfg_ttl = None, cfg_fireAndForget = None, cfg_debug = None\<rparr>
       (memClient (Some ''app:''))"

definition appDetachedService :: "mem service" where
  "appDetachedService =
     RedisCacheService \<lparr>cfg_ttl = None, cfg_fireAndForget = Some True, cfg_debug = None\<rparr>
       (memClient (Some ''app:''))"

definition globService :: "mem service" where
  "globService =
     RedisCacheService \<lparr>cfg_ttl = None, cfg_fireAndForget = None, cfg_debug = None\<rparr>
       (memClient (Some ''?:''))"

definition scriptedService :: "((error + string \<times> string list) list) service" where
  "scriptedService =
     RedisCacheService \<lparr>cfg_ttl = None, cfg_fireAndForget = None, cfg_debug = None\<rparr>
       (scriptedClient (Some ''app:''))"

text \<open>Stores with one entry: a payload that parses, and one that does not.\<close>

definition storeA :: mem where
  "storeA = \<lparr>entries = [(''a'', ''true'')], ready = True, budget = None\<rparr>"

definition storeB :: mem where
  "storeB = \<lparr>entries = [(''bad'', ''{oops'')], ready = True, budget = None\<rparr>"

text \<open>
  A store that is not connected, and the store \<open>storeA\<close> on a connection that serves \<open>n\<close>
  more commands.
\<close>

definition storeDown :: mem where
  "storeDown = \<lparr>entries = [(''a'', ''true'')], ready = False, budget = None\<rparr>"

definition storeClosing :: "nat \<Rightarrow> mem" where
  "storeClosing n = \<lparr>entries = [(''a'', ''true'')], ready = True, budget = Some n\<rparr>"

text \<open>
  A store with two user keys and a session key under the prefix \<^verbatim>\<open>app:\<close>, the same store
  on a connection that serves \<open>n\<close> more commands, and a store holding one key of another
  namespace.
\<close>

definition storeApp :: mem where
  "storeApp =
     \<lparr>entries = [(''app:user:1'', ''true''), (''app:user:2'', ''false''), (''app:session:9'', ''null'')],
      ready = True, budget = None\<rparr>"

definition storeAppClosing :: "nat \<Rightarrow> mem" where
  "storeAppClosing n = storeApp\<lparr>budget := Some n\<rparr>"

definition storeForeign :: mem where
  "storeForeign = \<lparr>entries = [(''a:?:b'', ''true'')], ready = True, budget = None\<rparr>"

text \<open>
  The scripted client on an engine that passes two arguments at most, services on it,
  blocking and fire-and-forget, and a script of two scan replies with three keys between
  them: each batch fits in one call, the three keys together do not.
\<close>

definition tightClient :: "((error + string \<times> string list) list) client" where
  "tightClient = (scriptedClient (Some ''app:''))\<lparr>maxArguments := 2\<rparr>"

definition tightService :: "((error + string \<times> string list) list) service" where
  "tightService =
     RedisCacheService \<lparr>cfg_ttl = None, cfg_fireAndForget = None, cfg_debug = None\<rparr> tightClient"

definition tightDetachedService :: "((error + string \<times> string list) list) service" where
  "tightDetachedService =
     RedisCacheService \<lparr>cfg_ttl = None, cfg_fireAndForget = Some True, cfg_debug = None\<rparr>
       tightClient"

definition scriptOfThree :: "(error + string \<times> string list) list" where
  "scriptOfThree = [Inr (''4'', [''app:user:1'', ''app:user:2'']), Inr (''0'', [''app:user:3''])]"

text \<open>
  A script of three scan replies, the second an empty batch with a cursor other than the
  start cursor.
\<close>

definition script :: "(error + string \<times> string list) list" where
  "script = [Inr (''17'', [''app:user:1'']), Inr (''5'', []), Inr (''0'', [''app:user:2''])]"

text \<open>
  Compute functions: one that leaves a mark in the log each time it runs and returns a
  string, and one that fails.
\<close>

definition computeFresh :: "mem state \<Rightarrow> (error + jsvalue) \<times> mem state" where
  "computeFresh s = (Inr (JString ''fresh''), s\<lparr>logs := logs s @ [LogInfo ''computing'']\<rparr>)"


text \<open>A compute function that returns a BigInt.\<close>

definition computeBigInt :: "mem state \<Rightarrow> (error + jsvalue) \<times> mem state" where
  "computeBigInt s = (Inr (JBigInt 10), s)"

section \<open>Properties\<close>

subsection \<open>Auxiliary facts\<close>

lemma world_logDebug [simp]: "world (logDebug svc msg s) = world s"
  by (simp add: logDebug_def)

lemma world_logError [simp]: "world (logError msg e s) = world s"
  by (simp add: logError_def)

lemma ttlToUse_mode [simp]: "ttlToUse (svc\<lparr>fireAndForget := b\<rparr>) ttl = ttlToUse svc ttl"
  by (simp add: ttlToUse_def split: option.splits)

lemma logDebug_mode [simp]: "logDebug (svc\<lparr>fireAndForget := b\<rparr>) msg s = logDebug svc msg s"
  by (simp add: logDebug_def)

lemma useFireAndForget_default [simp]: "useFireAndForget svc None = fireAndForget svc"
  by (simp add: useFireAndForget_def)

lemma useFireAndForget_override [simp]:
  "useFireAndForget svc (Some \<lparr>op_fireAndForget = Some b\<rparr>) = b"
  by (simp add: useFireAndForget_def)

lemma useFireAndForget_no_override [simp]:
  "useFireAndForget svc (Some \<lparr>op_fireAndForget = None\<rparr>) = fireAndForget svc"
  by (simp add: useFireAndForget_def)

lemma maxArguments_memClient [simp]: "maxArguments (memClient kp) = 100000"
  by (simp add: memClient_def)

lemma maxArguments_scriptedClient [simp]: "maxArguments (scriptedClient kp) = 100000"
  by (simp add: scriptedClient_def)

subsection \<open>Removing the key prefix\<close>

lemma replace_leading: "replace keyPrefix (keyPrefix @ key) = key"
proof (cases "keyPrefix @ key")
  case Nil
  then show ?thesis by simp
next
  case (Cons c rest)
  have "prefix keyPrefix (c # rest)" and "drop (length keyPrefix) (c # rest) = key"
    by (simp_all add: Cons [symmetric])
  then have "replace keyPrefix (c # rest) = key"
    by simp
  with Cons show ?thesis by simp
qed

lemma replace_absent:
  "\<forall>i. \<not> prefix keyPrefix (drop i key) \<Longrightarrow> replace keyPrefix key = key"
proof (induction key)
  case Nil
  show ?case by simp
next
  case (Cons c key)
  from Cons.prems [rule_format, of 0] have here: "\<not> prefix keyPrefix (c # key)"
    by simp
  have "\<forall>i. \<not> prefix keyPrefix (drop i key)"
  proof
    fix i
    from Cons.prems [rule_format, of "Suc i"] show "\<not> prefix keyPrefix (drop i key)"
      by simp
  qed
  with Cons.IH here show ?case
    by simp
qed

text \<open>
  Claim C1. The prefix is to be removed from the start of a key only. The code removes the
  first occurrence wherever it is: with the key prefix \<^verbatim>\<open>?:\<close>, \<^verbatim>\<open>getKeysByPattern('*')\<close> scans
  for \<^verbatim>\<open>?:*\<close>, the store replies with the key \<^verbatim>\<open>a:?:b\<close>, which does not start with the
  prefix, and the key comes back as \<^verbatim>\<open>a:b\<close>.
\<close>

theorem replace_not_anchored:
  "\<not> prefix ''?:'' ''a:?:b''
   \<and> replace ''?:'' ''a:?:b'' = ''a:b''
   \<and> redis_scan (client globService) ''0'' (''?:'' @ ''*'') 100 storeForeign
       = (Inr (''0'', [''a:?:b'']), storeForeign)
   \<and> map_option fst (getKeysByPattern globService ''*'' \<lparr>world = storeForeign, logs = []\<rparr>)
       = Some (Inr [''a:b''])
   \<and> map_option fst (delPattern globService ''*'' \<lparr>world = storeForeign, logs = []\<rparr>)
       = Some (Inr 0)"
proof -
  have cl: "client globService = memClient (Some ''?:'')"
    and quiet: "\<not> debug globService" and mode: "\<not> fireAndForget globService"
    by (simp_all add: globService_def RedisCacheService_def)
  have kp: "keyPrefixOf (memClient (Some ''?:'')) = ''?:''"
    by (simp add: keyPrefixOf_def memClient_def)
  have a: "\<not> prefix ''?:'' ''a:?:b''"
    by simp
  have b: "replace ''?:'' ''a:?:b'' = ''a:b''"
    by simp
  have c: "redis_scan (memClient (Some ''?:'')) ''0'' ''?:*'' 100 storeForeign
             = (Inr (''0'', [''a:?:b'']), storeForeign)"
    by (simp add: memClient_def storeForeign_def serve_def)
  have loop: "scanLoop (memClient (Some ''?:'')) ''?:'' ''?:*'' ''0'' [] storeForeign
                = Some (Inr [''a:b''], storeForeign)"
    by (subst scanLoop.simps) (simp add: c keysWithoutPrefix_def)
  have d: "map_option fst (getKeysByPattern globService ''*'' \<lparr>world = storeForeign, logs = []\<rparr>)
             = Some (Inr [''a:b''])"
    using loop by (simp add: getKeysByPattern_def cl kp)
  have del: "redis_del (memClient (Some ''?:'')) [''a:b''] storeForeign = (Inr 0, storeForeign)"
    by (simp add: memClient_def storeForeign_def serve_def physical_def)
  have e: "map_option fst (delPattern globService ''*'' \<lparr>world = storeForeign, logs = []\<rparr>)
             = Some (Inr 0)"
    using loop del by (simp add: delPattern_def cl kp mode)
  from a b c d e cl show ?thesis
    by simp
qed

subsection \<open>Execution mode\<close>

text \<open>
  Claim C2. In \<^verbatim>\<open>set\<close>, \<^verbatim>\<open>delKey\<close>, \<^verbatim>\<open>delKeys\<close> and \<^verbatim>\<open>reset\<close> the execution mode is the
  per-call \<^verbatim>\<open>fireAndForget\<close> option when the call gives one, an explicit \<^verbatim>\<open>false\<close>
  included, and the default of the service otherwise: a call with options behaves as the
  call without options on the service whose default is the resolved mode. With the default
  on and the override \<^verbatim>\<open>false\<close>, \<^verbatim>\<open>delKey\<close> returns the reply of the store's \<^verbatim>\<open>DEL\<close>; with
  the default off and the override \<^verbatim>\<open>true\<close> it returns 0 whatever the store replies.

  What the resolved mode does is the same in the four methods. Each issues its one command
  in either mode. When the mode is blocking, the outcome is the store's reply to the
  command, a count or an acknowledgement or the error. When the mode is fire-and-forget,
  the outcome is 0 (or nothing, for \<^verbatim>\<open>set\<close> and \<^verbatim>\<open>reset\<close>) whatever the store replies, and
  an error of the store is the last entry of the log. The calls that issue no command do
  not depend on the mode: \<^verbatim>\<open>set\<close> of a value that \<^verbatim>\<open>JSON.stringify\<close> rejects, \<^verbatim>\<open>delKeys\<close> of no
  key, and \<^verbatim>\<open>delKeys\<close> of more keys than one call takes.
\<close>

theorem execution_mode_precedence:
  "set_cache j svc key val ttl options s
     = set_cache j (svc\<lparr>fireAndForget := useFireAndForget svc options\<rparr>) key val ttl None s
   \<and> delKey svc key options s
     = delKey (svc\<lparr>fireAndForget := useFireAndForget svc options\<rparr>) key None s
   \<and> delKeys svc keys options s
     = delKeys (svc\<lparr>fireAndForget := useFireAndForget svc options\<rparr>) keys None s
   \<and> reset svc options s
     = reset (svc\<lparr>fireAndForget := useFireAndForget svc options\<rparr>) None s
   \<and> useFireAndForget svc None = fireAndForget svc
   \<and> useFireAndForget svc (Some \<lparr>op_fireAndForget = None\<rparr>) = fireAndForget svc
   \<and> useFireAndForget svc (Some \<lparr>op_fireAndForget = Some b\<rparr>) = b
   \<and> (fireAndForget svc \<longrightarrow>
        fst (delKey svc key (Some \<lparr>op_fireAndForget = Some False\<rparr>) s)
          = fst (redis_del (client svc) [key] (world s)))
   \<and> (\<not> fireAndForget svc \<longrightarrow>
        fst (delKey svc key (Some \<lparr>op_fireAndForget = Some True\<rparr>) s) = Inr 0)
   \<and> (stringify j val = Inr serialized \<and> \<not> useFireAndForget svc options \<longrightarrow>
        fst (set_cache j svc key val ttl options s)
          = fst (issueSet (client svc) key serialized (ttlToUse svc ttl) (world s))
      \<and> world (snd (set_cache j svc key val ttl options s))
          = snd (issueSet (client svc) key serialized (ttlToUse svc ttl) (world s)))
   \<and> (stringify j val = Inr serialized \<and> useFireAndForget svc options \<longrightarrow>
        fst (set_cache j svc key val ttl options s) = Inr ()
      \<and> world (snd (set_cache j svc key val ttl options s))
          = snd (issueSet (client svc) key serialized (ttlToUse svc ttl) (world s))
      \<and> (\<forall>err. fst (issueSet (client svc) key serialized (ttlToUse svc ttl) (world s)) = Inl err \<longrightarrow>
             last (logs (snd (set_cache j svc key val ttl options s)))
               = LogError (''Error setting key '' @ key @ '':'') err))
   \<and> (stringify j val = Inl failure \<longrightarrow>
        fst (set_cache j svc key val ttl options s) = Inl failure
      \<and> world (snd (set_cache j svc key val ttl options s)) = world s)
   \<and> (\<not> useFireAndForget svc options \<longrightarrow>
        fst (delKey svc key options s) = fst (redis_del (client svc) [key] (world s))
      \<and> world (snd (delKey svc key options s)) = snd (redis_del (client svc) [key] (world s)))
   \<and> (useFireAndForget svc options \<longrightarrow>
        fst (delKey svc key options s) = Inr 0
      \<and> world (snd (delKey svc key options s)) = snd (redis_del (client svc) [key] (world s))
      \<and> (\<forall>err. fst (redis_del (client svc) [key] (world s)) = Inl err \<longrightarrow>
             last (logs (snd (delKey svc key options s)))
               = LogError (''Error deleting key '' @ key @ '':'') err))
   \<and> (keys \<noteq> [] \<and> length keys \<le> maxArguments (client svc)
        \<and> \<not> useFireAndForget svc options \<longrightarrow>
        fst (delKeys svc keys options s) = fst (redis_del (client svc) keys (world s))
      \<and> world (snd (delKeys svc keys options s)) = snd (redis_del (client svc) keys (world s)))
   \<and> (keys \<noteq> [] \<and> length keys \<le> maxArguments (client svc)
        \<and> useFireAndForget svc options \<longrightarrow>
        fst (delKeys svc keys options s) = Inr 0
      \<and> world (snd (delKeys svc keys options s)) = snd (redis_del (client svc) keys (world s))
      \<and> (\<forall>err. fst (redis_del (client svc) keys (world s)) = Inl err \<longrightarrow>
             last (logs (snd (delKeys svc keys options s))) = LogError ''Error deleting keys:'' err))
   \<and> (keys = [] \<longrightarrow> delKeys svc keys options s = (Inr 0, s))
   \<and> (maxArguments (client svc) < length keys \<longrightarrow>
        fst (delKeys svc keys options s) = Inl rangeError
      \<and> world (snd (delKeys svc keys options s)) = world s)
   \<and> (\<not> useFireAndForget svc options \<longrightarrow>
        fst (reset svc options s) = fst (redis_flushdb (client svc) (world s))
      \<and> world (snd (reset svc options s)) = snd (redis_flushdb (client svc) (world s)))
   \<and> (useFireAndForget svc options \<longrightarrow>
        fst (reset svc options s) = Inr ()
      \<and> world (snd (reset svc options s)) = snd (redis_flushdb (client svc) (world s))
      \<and> (\<forall>err. fst (redis_flushdb (client svc) (world s)) = Inl err \<longrightarrow>
             last (logs (snd (reset svc options s))) = LogError ''Error resetting cache:'' err))"
proof -
  let ?svc = "svc\<lparr>fireAndForget := useFireAndForget svc options\<rparr>"
  have set_eq: "set_cache j svc key val ttl options s = set_cache j ?svc key val ttl None s"
    by (simp add: set_cache_def Let_def split: prod.splits sum.splits)
  have delKey_eq: "delKey svc key options s = delKey ?svc key None s"
    by (simp add: delKey_def Let_def split: prod.splits sum.splits)
  have delKeys_eq: "delKeys svc keys options s = delKeys ?svc keys None s"
    by (simp add: delKeys_def Let_def split: prod.splits sum.splits)
  have reset_eq: "reset svc options s = reset ?svc None s"
    by (simp add: reset_def Let_def split: prod.splits sum.splits)
  have blocking: "fst (delKey svc key (Some \<lparr>op_fireAndForget = Some False\<rparr>) s)
                    = fst (redis_del (client svc) [key] (world s))"
    by (simp add: delKey_def Let_def split: prod.splits sum.splits)
  have detached: "fst (delKey svc key (Some \<lparr>op_fireAndForget = Some True\<rparr>) s) = Inr 0"
    by (simp add: delKey_def Let_def split: prod.splits)
  have set_blocking: "stringify j val = Inr serialized \<and> \<not> useFireAndForget svc options \<longrightarrow>
        fst (set_cache j svc key val ttl options s)
          = fst (issueSet (client svc) key serialized (ttlToUse svc ttl) (world s))
      \<and> world (snd (set_cache j svc key val ttl options s))
          = snd (issueSet (client svc) key serialized (ttlToUse svc ttl) (world s))"
    by (simp add: set_cache_def Let_def split: prod.splits sum.splits)
  have set_detached: "stringify j val = Inr serialized \<and> useFireAndForget svc options \<longrightarrow>
        fst (set_cache j svc key val ttl options s) = Inr ()
      \<and> world (snd (set_cache j svc key val ttl options s))
          = snd (issueSet (client svc) key serialized (ttlToUse svc ttl) (world s))
      \<and> (\<forall>err. fst (issueSet (client svc) key serialized (ttlToUse svc ttl) (world s)) = Inl err \<longrightarrow>
             last (logs (snd (set_cache j svc key val ttl options s)))
               = LogError (''Error setting key '' @ key @ '':'') err)"
    by (simp add: set_cache_def Let_def logError_def split: prod.splits sum.splits)
  have set_rejected: "stringify j val = Inl failure \<longrightarrow>
        fst (set_cache j svc key val ttl options s) = Inl failure
      \<and> world (snd (set_cache j svc key val ttl options s)) = world s"
    by (simp add: set_cache_def)
  have delKey_blocking: "\<not> useFireAndForget svc options \<longrightarrow>
        fst (delKey svc key options s) = fst (redis_del (client svc) [key] (world s))
      \<and> world (snd (delKey svc key options s)) = snd (redis_del (client svc) [key] (world s))"
    by (simp add: delKey_def Let_def split: prod.splits sum.splits)
  have delKey_detached: "useFireAndForget svc options \<longrightarrow>
        fst (delKey svc key options s) = Inr 0
      \<and> world (snd (delKey svc key options s)) = snd (redis_del (client svc) [key] (world s))
      \<and> (\<forall>err. fst (redis_del (client svc) [key] (world s)) = Inl err \<longrightarrow>
             last (logs (snd (delKey svc key options s)))
               = LogError (''Error deleting key '' @ key @ '':'') err)"
    by (simp add: delKey_def Let_def logError_def split: prod.splits sum.splits)
  have delKeys_blocking: "keys \<noteq> [] \<and> length keys \<le> maxArguments (client svc)
        \<and> \<not> useFireAndForget svc options \<longrightarrow>
        fst (delKeys svc keys options s) = fst (redis_del (client svc) keys (world s))
      \<and> world (snd (delKeys svc keys options s)) = snd (redis_del (client svc) keys (world s))"
    by (simp add: delKeys_def Let_def not_less [symmetric] split: prod.splits sum.splits)
  have delKeys_detached: "keys \<noteq> [] \<and> length keys \<le> maxArguments (client svc)
        \<and> useFireAndForget svc options \<longrightarrow>
        fst (delKeys svc keys options s) = Inr 0
      \<and> world (snd (delKeys svc keys options s)) = snd (redis_del (client svc) keys (world s))
      \<and> (\<forall>err. fst (redis_del (client svc) keys (world s)) = Inl err \<longrightarrow>
             last (logs (snd (delKeys svc keys options s))) = LogError ''Error deleting keys:'' err)"
    by (simp add: delKeys_def Let_def logError_def not_less [symmetric]
          split: prod.splits sum.splits)
  have delKeys_none: "keys = [] \<longrightarrow> delKeys svc keys options s = (Inr 0, s)"
    by (simp add: delKeys_def)
  have delKeys_overflow: "maxArguments (client svc) < length keys \<longrightarrow>
        fst (delKeys svc keys options s) = Inl rangeError
      \<and> world (snd (delKeys svc keys options s)) = world s"
    by (auto simp add: delKeys_def Let_def)
  have reset_blocking: "\<not> useFireAndForget svc options \<longrightarrow>
        fst (reset svc options s) = fst (redis_flushdb (client svc) (world s))
      \<and> world (snd (reset svc options s)) = snd (redis_flushdb (client svc) (world s))"
    by (simp add: reset_def Let_def split: prod.splits sum.splits)
  have reset_detached: "useFireAndForget svc options \<longrightarrow>
        fst (reset svc options s) = Inr ()
      \<and> world (snd (reset svc options s)) = snd (redis_flushdb (client svc) (world s))
      \<and> (\<forall>err. fst (redis_flushdb (client svc) (world s)) = Inl err \<longrightarrow>
             last (logs (snd (reset svc options s))) = LogError ''Error resetting cache:'' err)"
    by (simp add: reset_def Let_def logError_def split: prod.splits sum.splits)
  have resolution: "useFireAndForget svc None = fireAndForget svc
      \<and> useFireAndForget svc (Some \<lparr>op_fireAndForget = None\<rparr>) = fireAndForget svc
      \<and> useFireAndForget svc (Some \<lparr>op_fireAndForget = Some b\<rparr>) = b"
    by simp
  show ?thesis
    apply (intro conjI)
    using set_eq delKey_eq delKeys_eq reset_eq resolution blocking detached
          set_blocking set_detached set_rejected delKey_blocking delKey_detached
          delKeys_blocking delKeys_detached delKeys_none delKeys_overflow
          reset_blocking reset_detached
    by blast+
qed

theorem execution_mode_precedence_witness:
  "fireAndForget detachedService
   \<and> fst (delKey detachedService ''a'' (Some \<lparr>op_fireAndForget = Some False\<rparr>)
             \<lparr>world = storeA, logs = []\<rparr>) = Inr 1
   \<and> \<not> fireAndForget plainService
   \<and> fst (delKey plainService ''a'' (Some \<lparr>op_fireAndForget = Some True\<rparr>)
             \<lparr>world = storeA, logs = []\<rparr>) = Inr 0
   \<and> entries (world (snd (delKey plainService ''a'' (Some \<lparr>op_fireAndForget
       = Some True\<rparr>)
                             \<lparr>world = storeA, logs = []\<rparr>))) = []
   \<and> fst (set_cache miniJson plainService ''a'' JNull None (Some \<lparr>op_fireAndForget
       = Some True\<rparr>)
             \<lparr>world = storeClosing 0, logs = []\<rparr>) = Inr ()
   \<and> last (logs (snd (set_cache miniJson plainService ''a'' JNull None
                          (Some \<lparr>op_fireAndForget = Some True\<rparr>)
                          \<lparr>world = storeClosing 0, logs = []\<rparr>)))
       = LogError ''Error setting key a:'' closed
   \<and> fst (set_cache miniJson detachedService ''a'' JNull None (Some \<lparr>op_fireAndForget
       = Some False\<rparr>)
             \<lparr>world = storeClosing 0, logs = []\<rparr>) = Inl closed
   \<and> fst (delKeys detachedService [''a'', ''b''] (Some \<lparr>op_fireAndForget
       = Some False\<rparr>)
             \<lparr>world = storeA, logs = []\<rparr>) = Inr 1
   \<and> fst (delKeys plainService [''a'', ''b''] (Some \<lparr>op_fireAndForget
       = Some True\<rparr>)
             \<lparr>world = storeA, logs = []\<rparr>) = Inr 0
   \<and> fst (reset detachedService (Some \<lparr>op_fireAndForget = Some False\<rparr>)
             \<lparr>world = storeClosing 0, logs = []\<rparr>) = Inl closed
   \<and> fst (reset plainService (Some \<lparr>op_fireAndForget = Some True\<rparr>)
             \<lparr>world = storeClosing 0, logs = []\<rparr>) = Inr ()
   \<and> last (logs (snd (reset plainService (Some \<lparr>op_fireAndForget = Some True\<rparr>)
                          \<lparr>world = storeClosing 0, logs = []\<rparr>)))
       = LogError ''Error resetting cache:'' closed"
proof -
  let ?block = "Some \<lparr>op_fireAndForget = Some False\<rparr>"
  let ?detach = "Some \<lparr>op_fireAndForget = Some True\<rparr>"
  let ?sA = "\<lparr>world = storeA, logs = []\<rparr>"
  let ?s0 = "\<lparr>world = storeClosing 0, logs = []\<rparr>"
  have cl: "client detachedService = memClient None" "client plainService = memClient None"
    by (simp_all add: detachedService_def plainService_def RedisCacheService_def)
  have on: "fireAndForget detachedService" and off: "\<not> fireAndForget plainService"
    by (simp_all add: detachedService_def plainService_def RedisCacheService_def)
  have ttl: "ttlToUse detachedService None = None" "ttlToUse plainService None = None"
    by (simp_all add: ttlToUse_def detachedService_def plainService_def RedisCacheService_def)
  have del1: "redis_del (memClient None) [''a''] storeA
      = (Inr 1, storeA\<lparr>entries := []\<rparr>)"
    by (simp add: memClient_def storeA_def serve_def physical_def)
  have del2: "redis_del (memClient None) [''a'', ''b''] storeA
      = (Inr 1, storeA\<lparr>entries := []\<rparr>)"
    by (simp add: memClient_def storeA_def serve_def physical_def)
  have encoded: "stringify miniJson JNull = Inr ''null''"
    by (simp add: miniJson_def)
  have refused: "issueSet (memClient None) ''a'' ''null'' None (storeClosing 0)
                   = (Inl closed, storeClosing 0)"
    by (simp add: issueSet_def memClient_def storeClosing_def serve_def)
  have flush: "redis_flushdb (memClient None) (storeClosing 0) = (Inl closed, storeClosing 0)"
    by (simp add: memClient_def storeClosing_def serve_def)
  note blocked = execution_mode_precedence
      [where j = miniJson and svc = detachedService and key = "''a''" and val = JNull
         and ttl = None and keys = "[''a'', ''b'']" and serialized = "''null''" and b = True
         and failure = closed]
  note detached = execution_mode_precedence
      [where j = miniJson and svc = plainService and key = "''a''" and val = JNull
         and ttl = None and keys = "[''a'', ''b'']" and serialized = "''null''" and b = True
         and failure = closed]
  have delKey_blocked: "\<not> useFireAndForget detachedService ?block \<longrightarrow>
        fst (delKey detachedService ''a'' ?block ?sA)
            = fst (redis_del (client detachedService) [''a''] (world ?sA))
      \<and> world (snd (delKey detachedService ''a'' ?block ?sA))
          = snd (redis_del (client detachedService) [''a''] (world ?sA))"
    by (rule blocked [where options = ?block and s = ?sA,
          THEN conjunct2, THEN conjunct2, THEN conjunct2, THEN conjunct2, THEN conjunct2,
          THEN conjunct2, THEN conjunct2, THEN conjunct2, THEN conjunct2, THEN conjunct2,
          THEN conjunct2, THEN conjunct2, THEN conjunct1])
  have delKeys_blocked: "[''a'', ''b''] \<noteq> [] \<and> length [''a'', ''b''] \<le> maxArguments
      (client detachedService)
        \<and> \<not> useFireAndForget detachedService ?block \<longrightarrow>
        fst (delKeys detachedService [''a'', ''b''] ?block ?sA)
            = fst (redis_del (client detachedService) [''a'', ''b''] (world ?sA))
      \<and> world (snd (delKeys detachedService [''a'', ''b''] ?block ?sA))
          = snd (redis_del (client detachedService) [''a'', ''b''] (world ?sA))"
    by (rule blocked [where options = ?block and s = ?sA,
          THEN conjunct2, THEN conjunct2, THEN conjunct2, THEN conjunct2, THEN conjunct2,
          THEN conjunct2, THEN conjunct2, THEN conjunct2, THEN conjunct2, THEN conjunct2,
          THEN conjunct2, THEN conjunct2, THEN conjunct2, THEN conjunct2, THEN conjunct1])
  have set_blocked: "stringify miniJson JNull
      = Inr ''null'' \<and> \<not> useFireAndForget detachedService ?block \<longrightarrow>
        fst (set_cache miniJson detachedService ''a'' JNull None ?block ?s0)
          = fst (issueSet (client detachedService) ''a'' ''null'' (ttlToUse detachedService None)
              (world ?s0))
      \<and> world (snd (set_cache miniJson detachedService ''a'' JNull None ?block ?s0))
          = snd (issueSet (client detachedService) ''a'' ''null'' (ttlToUse detachedService None)
              (world ?s0))"
    by (rule blocked [where options = ?block and s = ?s0,
          THEN conjunct2, THEN conjunct2, THEN conjunct2, THEN conjunct2, THEN conjunct2,
          THEN conjunct2, THEN conjunct2, THEN conjunct2, THEN conjunct2, THEN conjunct1])
  have reset_blocked: "\<not> useFireAndForget detachedService ?block \<longrightarrow>
        fst (reset detachedService ?block ?s0)
            = fst (redis_flushdb (client detachedService) (world ?s0))
      \<and> world (snd (reset detachedService ?block ?s0))
          = snd (redis_flushdb (client detachedService) (world ?s0))"
    by (rule blocked [where options = ?block and s = ?s0,
          THEN conjunct2, THEN conjunct2, THEN conjunct2, THEN conjunct2, THEN conjunct2,
          THEN conjunct2, THEN conjunct2, THEN conjunct2, THEN conjunct2, THEN conjunct2,
          THEN conjunct2, THEN conjunct2, THEN conjunct2, THEN conjunct2, THEN conjunct2,
          THEN conjunct2, THEN conjunct2, THEN conjunct2, THEN conjunct1])
  have delKey_detached: "useFireAndForget plainService ?detach \<longrightarrow>
        fst (delKey plainService ''a'' ?detach ?sA) = Inr 0
      \<and> world (snd (delKey plainService ''a'' ?detach ?sA))
          = snd (redis_del (client plainService) [''a''] (world ?sA))
      \<and> (\<forall>err. fst (redis_del (client plainService) [''a''] (world ?sA))
          = Inl err \<longrightarrow>
             last (logs (snd (delKey plainService ''a'' ?detach ?sA)))
               = LogError (''Error deleting key '' @ ''a'' @ '':'') err)"
    by (rule detached [where options = ?detach and s = ?sA,
          THEN conjunct2, THEN conjunct2, THEN conjunct2, THEN conjunct2, THEN conjunct2,
          THEN conjunct2, THEN conjunct2, THEN conjunct2, THEN conjunct2, THEN conjunct2,
          THEN conjunct2, THEN conjunct2, THEN conjunct2, THEN conjunct1])
  have delKeys_detached: "[''a'', ''b''] \<noteq> [] \<and> length [''a'', ''b''] \<le>
      maxArguments (client plainService)
        \<and> useFireAndForget plainService ?detach \<longrightarrow>
        fst (delKeys plainService [''a'', ''b''] ?detach ?sA) = Inr 0
      \<and> world (snd (delKeys plainService [''a'', ''b''] ?detach ?sA))
          = snd (redis_del (client plainService) [''a'', ''b''] (world ?sA))
      \<and> (\<forall>err. fst (redis_del (client plainService) [''a'', ''b''] (world ?sA))
          = Inl err \<longrightarrow>
             last (logs (snd (delKeys plainService [''a'', ''b''] ?detach ?sA)))
               = LogError ''Error deleting keys:'' err)"
    by (rule detached [where options = ?detach and s = ?sA,
          THEN conjunct2, THEN conjunct2, THEN conjunct2, THEN conjunct2, THEN conjunct2,
          THEN conjunct2, THEN conjunct2, THEN conjunct2, THEN conjunct2, THEN conjunct2,
          THEN conjunct2, THEN conjunct2, THEN conjunct2, THEN conjunct2, THEN conjunct2,
          THEN conjunct1])
  have set_detached: "stringify miniJson JNull
      = Inr ''null'' \<and> useFireAndForget plainService ?detach \<longrightarrow>
        fst (set_cache miniJson plainService ''a'' JNull None ?detach ?s0) = Inr ()
      \<and> world (snd (set_cache miniJson plainService ''a'' JNull None ?detach ?s0))
          = snd (issueSet (client plainService) ''a'' ''null'' (ttlToUse plainService None) (world
              ?s0))
      \<and> (\<forall>err. fst (issueSet (client plainService) ''a'' ''null'' (ttlToUse
          plainService None) (world ?s0)) = Inl err \<longrightarrow>
             last (logs (snd (set_cache miniJson plainService ''a'' JNull None ?detach ?s0)))
               = LogError (''Error setting key '' @ ''a'' @ '':'') err)"
    by (rule detached [where options = ?detach and s = ?s0,
          THEN conjunct2, THEN conjunct2, THEN conjunct2, THEN conjunct2, THEN conjunct2,
          THEN conjunct2, THEN conjunct2, THEN conjunct2, THEN conjunct2, THEN conjunct2,
          THEN conjunct1])
  have reset_detached: "useFireAndForget plainService ?detach \<longrightarrow>
        fst (reset plainService ?detach ?s0) = Inr ()
      \<and> world (snd (reset plainService ?detach ?s0))
          = snd (redis_flushdb (client plainService) (world ?s0))
      \<and> (\<forall>err. fst (redis_flushdb (client plainService) (world ?s0))
          = Inl err \<longrightarrow>
             last (logs (snd (reset plainService ?detach ?s0)))
                 = LogError ''Error resetting cache:'' err)"
    by (rule detached [where options = ?detach and s = ?s0,
          THEN conjunct2, THEN conjunct2, THEN conjunct2, THEN conjunct2, THEN conjunct2,
          THEN conjunct2, THEN conjunct2, THEN conjunct2, THEN conjunct2, THEN conjunct2,
          THEN conjunct2, THEN conjunct2, THEN conjunct2, THEN conjunct2, THEN conjunct2,
          THEN conjunct2, THEN conjunct2, THEN conjunct2, THEN conjunct2])
  from delKey_blocked on cl del1
  have a: "fst (delKey detachedService ''a'' ?block ?sA) = Inr 1"
    by simp
  from delKeys_blocked on cl del2
  have d: "fst (delKeys detachedService [''a'', ''b''] ?block ?sA) = Inr 1"
    by simp
  from delKey_detached off cl del1
  have b: "fst (delKey plainService ''a'' ?detach ?sA) = Inr 0"
    and b': "entries (world (snd (delKey plainService ''a'' ?detach ?sA))) = []"
    by simp_all
  from delKeys_detached off cl del2
  have e: "fst (delKeys plainService [''a'', ''b''] ?detach ?sA) = Inr 0"
    by simp
  from set_detached off cl encoded refused ttl
  have c: "fst (set_cache miniJson plainService ''a'' JNull None ?detach ?s0) = Inr ()"
    and c': "last (logs (snd (set_cache miniJson plainService ''a'' JNull None ?detach ?s0)))
               = LogError ''Error setting key a:'' closed"
    by simp_all
  from reset_detached off cl flush
  have g: "fst (reset plainService ?detach ?s0) = Inr ()"
    and g': "last (logs (snd (reset plainService ?detach ?s0)))
               = LogError ''Error resetting cache:'' closed"
    by simp_all
  from set_blocked on cl encoded refused ttl
  have c'': "fst (set_cache miniJson detachedService ''a'' JNull None ?block ?s0) = Inl closed"
    by simp
  from reset_blocked on cl flush
  have f: "fst (reset detachedService ?block ?s0) = Inl closed"
    by simp
  from on off a b b' c c' c'' d e f g g' show ?thesis
    by simp
qed

subsection \<open>The scan loop\<close>

lemma keysWithoutPrefix_Nil [simp]: "keysWithoutPrefix keyPrefix [] = []"
  by (simp add: keysWithoutPrefix_def)

lemma scan_accumulate:
  "(if 0 < length keys then allKeys @ keysWithoutPrefix keyPrefix keys else allKeys)
     = allKeys @ keysWithoutPrefix keyPrefix keys"
  by (cases keys) simp_all

lemma scan_accumulate':
  "(if keys \<noteq> [] then allKeys @ keysWithoutPrefix keyPrefix keys else allKeys)
     = allKeys @ keysWithoutPrefix keyPrefix keys"
  by (cases keys) simp_all

lemma scanLoop_step:
  "scanLoop cl keyPrefix fullPattern cursor allKeys w =
     (case redis_scan cl cursor fullPattern 100 w of
        (Inl e, w') \<Rightarrow> Some (Inl e, w')
      | (Inr (cursor', keys), w') \<Rightarrow>
          if cursor' \<noteq> ''0''
          then scanLoop cl keyPrefix fullPattern cursor' (allKeys @ keysWithoutPrefix keyPrefix keys) w'
          else Some (Inr (allKeys @ keysWithoutPrefix keyPrefix keys), w'))"
  by (subst scanLoop.simps) (simp add: scan_accumulate Let_def split: prod.splits sum.splits)

lemma scanRun_scanLoop:
  "scanRun cl fullPattern cursor w batches w' \<Longrightarrow>
   scanLoop cl keyPrefix fullPattern cursor allKeys w
     = Some (Inr (allKeys @ concat (map (keysWithoutPrefix keyPrefix) batches)), w')"
proof (induction arbitrary: allKeys rule: scanRun.induct)
  case (sentinel cursor w keys w')
  then show ?case
    by (subst scanLoop_step) simp
next
  case (continue cursor w cursor' keys w' batches w'')
  show ?case
    using continue.hyps(1,2) continue.IH [of "allKeys @ keysWithoutPrefix keyPrefix keys"]
    by (subst scanLoop_step) simp
qed

lemma scanLoop_scanRun:
  assumes "scanLoop cl keyPrefix fullPattern cursor allKeys w = Some (Inr result, w')"
  shows "\<exists>batches. scanRun cl fullPattern cursor w batches w'
           \<and> result = allKeys @ concat (map (keysWithoutPrefix keyPrefix) batches)"
proof -
  have "\<forall>result w'. y = (Inr result, w') \<longrightarrow>
          (\<exists>batches. scanRun cl fullPattern cursor w batches w'
             \<and> result = allKeys @ concat (map (keysWithoutPrefix keyPrefix) batches))"
    if "scanLoop cl keyPrefix fullPattern cursor allKeys w = Some y" for y
    using that
  proof (induction cl keyPrefix fullPattern cursor allKeys w y rule: scanLoop.raw_induct)
    case (1 loop cl keyPrefix fullPattern cursor allKeys w y)
    show ?case
    proof (intro allI impI)
      fix result w'
      assume y: "y = (Inr result, w')"
      obtain r w1 where scan: "redis_scan cl cursor fullPattern 100 w = (r, w1)"
        by (cases "redis_scan cl cursor fullPattern 100 w")
      show "\<exists>batches. scanRun cl fullPattern cursor w batches w'
              \<and> result = allKeys @ concat (map (keysWithoutPrefix keyPrefix) batches)"
      proof (cases r)
        case (Inl e)
        with "1.hyps" scan y show ?thesis
          by simp
      next
        case (Inr reply)
        obtain cursor' keys where reply: "reply = (cursor', keys)"
          by (cases reply)
        show ?thesis
        proof (cases "cursor' = ''0''")
          case True
          with "1.hyps" scan y Inr reply
          have "result = allKeys @ keysWithoutPrefix keyPrefix keys" and "w' = w1"
            by (simp_all add: scan_accumulate')
          moreover from scan Inr reply True
          have "scanRun cl fullPattern cursor w [keys] w1"
            by (simp add: scanRun.sentinel)
          ultimately show ?thesis
            by (intro exI [of _ "[keys]"]) simp
        next
          case False
          with "1.hyps" scan y Inr reply
          have inner: "loop cl keyPrefix fullPattern cursor'
                         (allKeys @ keysWithoutPrefix keyPrefix keys) w1 = Some (Inr result, w')"
            by (simp add: scan_accumulate')
          from "1.prems" scan y Inr reply False
          have outer: "scanLoop cl keyPrefix fullPattern cursor'
                         (allKeys @ keysWithoutPrefix keyPrefix keys) w1 = Some (Inr result, w')"
            by (subst (asm) scanLoop_step) simp
          from "1.IH" [OF inner outer]
          obtain batches where run: "scanRun cl fullPattern cursor' w1 batches w'"
            and res: "result = (allKeys @ keysWithoutPrefix keyPrefix keys)
                                 @ concat (map (keysWithoutPrefix keyPrefix) batches)"
            by blast
          from scan Inr reply False run
          have "scanRun cl fullPattern cursor w (keys # batches) w'"
            by (simp add: scanRun.continue)
          with res show ?thesis
            by (intro exI [of _ "keys # batches"]) simp
        qed
      qed
    qed
  qed (rule that)
  with assms show ?thesis
    by blast
qed

lemma scanLoop_diverges: "scanLoop loopingClient keyPrefix fullPattern cursor allKeys w = None"
proof (cases "scanLoop loopingClient keyPrefix fullPattern cursor allKeys w")
  case None
  then show ?thesis .
next
  case (Some y)
  have "loopingClient \<noteq> loopingClient"
  proof (rule scanLoop.raw_induct
      [where P = "\<lambda>cl keyPrefix fullPattern cursor allKeys w y. cl \<noteq> loopingClient", OF _ Some])
    fix loop :: "unit client \<Rightarrow> string \<Rightarrow> string \<Rightarrow> string \<Rightarrow> string list \<Rightarrow> unit
                  \<Rightarrow> ((error + string list) \<times> unit) option"
      and cl keyPrefix fullPattern cursor allKeys w y
    assume IH: "\<And>cl keyPrefix fullPattern cursor allKeys w y.
                  loop cl keyPrefix fullPattern cursor allKeys w = Some y \<Longrightarrow> cl \<noteq> loopingClient"
      and body: "(case redis_scan cl cursor fullPattern 100 w of
                    (Inl e, w') \<Rightarrow> Some (Inl e, w')
                  | (Inr (cursor', keys), w') \<Rightarrow>
                      let allKeys' = if 0 < length keys
                                     then allKeys @ keysWithoutPrefix keyPrefix keys else allKeys
                      in if cursor' \<noteq> ''0''
                         then loop cl keyPrefix fullPattern cursor' allKeys' w'
                         else Some (Inr allKeys', w')) = Some y"
    show "cl \<noteq> loopingClient"
    proof
      assume cl: "cl = loopingClient"
      with body have "loop cl keyPrefix fullPattern ''1'' allKeys w = Some y"
        by (simp add: loopingClient_def)
      from IH [OF this] cl show False
        by simp
    qed
  qed
  then show ?thesis
    by simp
qed

text \<open>
  Claim C3. The cursor loop of \<^verbatim>\<open>delPattern\<close> and \<^verbatim>\<open>getKeysByPattern\<close> returns a list of keys
  exactly when the scans, followed from the cursor the loop starts with, reach a reply with
  the start cursor \<^verbatim>\<open>"0"\<close>; it ends at the first such reply and its result is the keys of
  every batch up to there, with the prefix removed, in order. An empty batch with another
  cursor does not end the loop: the loop goes on from that cursor with the keys it had. So
  whenever the store comes to reply with the start cursor, \<^verbatim>\<open>getKeysByPattern\<close> returns.
  The one other way out of the loop is a scan that fails, which ends it with the error.
\<close>

theorem scanLoop_ends_at_sentinel:
  "(scanLoop cl keyPrefix fullPattern cursor allKeys w = Some (Inr result, w')
      \<longleftrightarrow> (\<exists>batches. scanRun cl fullPattern cursor w batches w'
             \<and> result = allKeys @ concat (map (keysWithoutPrefix keyPrefix) batches)))
   \<and> (redis_scan cl cursor fullPattern 100 w = (Inr (cursor', []), w1) \<and> cursor' \<noteq> ''0'' \<longrightarrow>
        scanLoop cl keyPrefix fullPattern cursor allKeys w
          = scanLoop cl keyPrefix fullPattern cursor' allKeys w1)
   \<and> (scanRun (client svc) (keyPrefixOf (client svc) @ pattern) ''0'' (world s) batches v \<longrightarrow>
        map_option fst (getKeysByPattern svc pattern s)
          = Some (Inr (concat (map (keysWithoutPrefix (keyPrefixOf (client svc))) batches))))
   \<and> (redis_scan cl cursor fullPattern 100 w = (Inl e, w1) \<longrightarrow>
        scanLoop cl keyPrefix fullPattern cursor allKeys w = Some (Inl e, w1))"
proof -
  have exact: "scanLoop cl keyPrefix fullPattern cursor allKeys w = Some (Inr result, w')
      \<longleftrightarrow> (\<exists>batches. scanRun cl fullPattern cursor w batches w'
             \<and> result = allKeys @ concat (map (keysWithoutPrefix keyPrefix) batches))"
    using scanLoop_scanRun [of cl keyPrefix fullPattern cursor allKeys w result w']
          scanRun_scanLoop [of cl fullPattern cursor w _ w' keyPrefix allKeys]
    by blast
  have empty_batch: "redis_scan cl cursor fullPattern 100 w = (Inr (cursor', []), w1)
        \<and> cursor' \<noteq> ''0'' \<longrightarrow>
        scanLoop cl keyPrefix fullPattern cursor allKeys w
          = scanLoop cl keyPrefix fullPattern cursor' allKeys w1"
    by (subst scanLoop_step) simp
  have total: "scanRun (client svc) (keyPrefixOf (client svc) @ pattern) ''0'' (world s) batches v \<longrightarrow>
        map_option fst (getKeysByPattern svc pattern s)
          = Some (Inr (concat (map (keysWithoutPrefix (keyPrefixOf (client svc))) batches)))"
    using scanRun_scanLoop
            [of "client svc" "keyPrefixOf (client svc) @ pattern" "''0''" "world s" batches v
                "keyPrefixOf (client svc)" "[]"]
    by (auto simp add: getKeysByPattern_def Let_def)
  have failed_scan: "redis_scan cl cursor fullPattern 100 w = (Inl e, w1) \<longrightarrow>
        scanLoop cl keyPrefix fullPattern cursor allKeys w = Some (Inl e, w1)"
    by (subst scanLoop_step) simp
  from exact empty_batch total failed_scan show ?thesis
    by blast
qed

theorem scanLoop_ends_at_sentinel_witness:
  "scanLoop (scriptedClient (Some ''app:'')) ''app:'' ''app:user:*'' ''0'' [] script
     = Some (Inr [''user:1'', ''user:2''], [])
   \<and> scanRun (scriptedClient (Some ''app:'')) ''app:user:*'' ''0'' script
        [[''app:user:1''], [], [''app:user:2'']] []
   \<and> redis_scan (scriptedClient (Some ''app:'')) ''17'' ''app:user:*'' 100 (tl script)
       = (Inr (''5'', []), tl (tl script))
   \<and> scanLoop (scriptedClient (Some ''app:'')) ''app:'' ''app:user:*'' ''17'' [''user:1''] (tl script)
       = scanLoop (scriptedClient (Some ''app:'')) ''app:'' ''app:user:*'' ''5'' [''user:1'']
           (tl (tl script))
   \<and> map_option fst (getKeysByPattern scriptedService ''user:*'' \<lparr>world = script, logs = []\<rparr>)
       = Some (Inr [''user:1'', ''user:2''])"
proof -
  let ?cl = "scriptedClient (Some ''app:'')"
  have third: "scanRun ?cl ''app:user:*'' ''5'' (tl (tl script)) [[''app:user:2'']] []"
    by (rule scanRun.sentinel) (simp add: scriptedClient_def script_def)
  have second: "scanRun ?cl ''app:user:*'' ''17'' (tl script) [[], [''app:user:2'']] []"
    by (rule scanRun.continue [OF _ _ third]) (simp_all add: scriptedClient_def script_def)
  have run: "scanRun ?cl ''app:user:*'' ''0'' script [[''app:user:1''], [], [''app:user:2'']] []"
    by (rule scanRun.continue [OF _ _ second]) (simp_all add: scriptedClient_def script_def)
  have stripped: "[] @ concat (map (keysWithoutPrefix ''app:'')
                                 [[''app:user:1''], [], [''app:user:2'']])
                    = [''user:1'', ''user:2'']"
    by (simp add: keysWithoutPrefix_def)
  have empty: "redis_scan ?cl ''17'' ''app:user:*'' 100 (tl script) = (Inr (''5'', []), tl (tl script))"
    by (simp add: scriptedClient_def script_def)
  have cl: "client scriptedService = ?cl"
    by (simp add: scriptedService_def RedisCacheService_def)
  have kp: "keyPrefixOf ?cl = ''app:''"
    by (simp add: keyPrefixOf_def scriptedClient_def)
  note c3 = scanLoop_ends_at_sentinel
              [of ?cl "''app:''" "''app:user:*''" _ _ _ _ _ _ _ scriptedService "''user:*''"
                  "\<lparr>world = script, logs = []\<rparr>" "[[''app:user:1''], [], [''app:user:2'']]" "[]"]
  from run stripped
  have reached: "\<exists>batches. scanRun ?cl ''app:user:*'' ''0'' script batches []
                   \<and> [''user:1'', ''user:2'']
                       = [] @ concat (map (keysWithoutPrefix ''app:'') batches)"
    by (intro exI [of _ "[[''app:user:1''], [], [''app:user:2'']]"]) simp
  from c3 [of "''0''" "[]" script "[''user:1'', ''user:2'']" "[]"] reached
  have a: "scanLoop ?cl ''app:'' ''app:user:*'' ''0'' [] script
             = Some (Inr [''user:1'', ''user:2''], [])"
    by blast
  from c3 [of "''17''" "[''user:1'']" "tl script" _ _ "''5''" "tl (tl script)"] empty
  have b: "scanLoop ?cl ''app:'' ''app:user:*'' ''17'' [''user:1''] (tl script)
             = scanLoop ?cl ''app:'' ''app:user:*'' ''5'' [''user:1''] (tl (tl script))"
    by simp
  from c3 [of "''0''" "[]" script] run cl kp stripped
  have c: "map_option fst (getKeysByPattern scriptedService ''user:*'' \<lparr>world = script, logs = []\<rparr>)
             = Some (Inr [''user:1'', ''user:2''])"
    by simp
  from a run empty b c show ?thesis
    by blast
qed

subsection \<open>delPattern\<close>

text \<open>
  \<^verbatim>\<open>delPattern\<close> has no options argument. When the scan ends with no key, it returns 0 and
  the store is as the scan left it. When the scan ends with keys that fit in the arguments
  of one call, it issues one \<^verbatim>\<open>DEL\<close> of the keys as the loop collected them; the default
  of the service alone decides whether the outcome is the store's reply or 0.
\<close>

lemma delPattern_within_limit:
  assumes "scanLoop (client svc) (keyPrefixOf (client svc)) (keyPrefixOf (client svc) @ pattern)
             ''0'' [] (world s) = Some (Inr allKeys, w)"
      and "length allKeys \<le> maxArguments (client svc)"
  shows "(allKeys = [] \<longrightarrow>
            map_option fst (delPattern svc pattern s) = Some (Inr 0)
          \<and> map_option (\<lambda>r. world (snd r)) (delPattern svc pattern s) = Some w)
       \<and> (allKeys \<noteq> [] \<and> \<not> fireAndForget svc \<longrightarrow>
            map_option fst (delPattern svc pattern s) = Some (fst (redis_del (client svc) allKeys w))
          \<and> map_option (\<lambda>r. world (snd r)) (delPattern svc pattern s)
              = Some (snd (redis_del (client svc) allKeys w)))
       \<and> (allKeys \<noteq> [] \<and> fireAndForget svc \<longrightarrow>
            map_option fst (delPattern svc pattern s) = Some (Inr 0)
          \<and> map_option (\<lambda>r. world (snd r)) (delPattern svc pattern s)
              = Some (snd (redis_del (client svc) allKeys w)))"
proof -
  from assms(2) have fits: "\<not> maxArguments (client svc) < length allKeys"
    by simp
  have none_found: "allKeys = [] \<longrightarrow>
            map_option fst (delPattern svc pattern s) = Some (Inr 0)
          \<and> map_option (\<lambda>r. world (snd r)) (delPattern svc pattern s) = Some w"
    using assms(1) by (simp add: delPattern_def)
  have blocking: "allKeys \<noteq> [] \<and> \<not> fireAndForget svc \<longrightarrow>
            map_option fst (delPattern svc pattern s) = Some (fst (redis_del (client svc) allKeys w))
          \<and> map_option (\<lambda>r. world (snd r)) (delPattern svc pattern s)
              = Some (snd (redis_del (client svc) allKeys w))"
    using assms(1) fits by (simp add: delPattern_def Let_def split: prod.splits sum.splits)
  have detached: "allKeys \<noteq> [] \<and> fireAndForget svc \<longrightarrow>
            map_option fst (delPattern svc pattern s) = Some (Inr 0)
          \<and> map_option (\<lambda>r. world (snd r)) (delPattern svc pattern s)
              = Some (snd (redis_del (client svc) allKeys w))"
    using assms(1) fits by (simp add: delPattern_def Let_def split: prod.splits sum.splits)
  from none_found blocking detached show ?thesis
    by blast
qed

text \<open>
  When the scan ends with more keys than one call takes, the spread of the list throws
  before the mode is looked at and before any \<^verbatim>\<open>DEL\<close> is issued.
\<close>

lemma delPattern_too_many_keys:
  assumes "scanLoop (client svc) (keyPrefixOf (client svc)) (keyPrefixOf (client svc) @ pattern)
             ''0'' [] (world s) = Some (Inr allKeys, w)"
      and "maxArguments (client svc) < length allKeys"
  shows "delPattern svc pattern s
           = Some (Inl rangeError,
                   logError (''Error deleting pattern '' @ pattern @ '':'') rangeError
                     (s\<lparr>world := w\<rparr>))"
proof -
  from assms(2) have "allKeys \<noteq> []"
    by auto
  with assms show ?thesis
    by (simp add: delPattern_def Let_def)
qed

lemma scanLoop_storeApp:
  "scanLoop (memClient (Some ''app:'')) ''app:'' (''app:'' @ ''user:*'') ''0'' [] storeApp
     = Some (Inr [''user:1'', ''user:2''], storeApp)"
  by (simp add: scanLoop.simps memClient_def storeApp_def serve_def keysWithoutPrefix_def)

lemma scanLoop_storeApp_none:
  "scanLoop (memClient (Some ''app:'')) ''app:'' (''app:'' @ ''cache:*'') ''0'' [] storeApp
     = Some (Inr [], storeApp)"
  by (simp add: scanLoop.simps memClient_def storeApp_def serve_def keysWithoutPrefix_def)

lemma del_storeApp:
  "redis_del (memClient (Some ''app:'')) [''user:1'', ''user:2''] storeApp
     = (Inr 2, storeApp\<lparr>entries := [(''app:session:9'', ''null'')]\<rparr>)"
  by (simp add: memClient_def storeApp_def serve_def physical_def)

text \<open>
  With the prefix \<^verbatim>\<open>app:\<close> and the keys \<^verbatim>\<open>app:user:1\<close>, \<^verbatim>\<open>app:user:2\<close> and \<^verbatim>\<open>app:session:9\<close>
  in the store, \<^verbatim>\<open>delPattern('user:*')\<close> deletes the two user keys and leaves the session
  key; it returns 2 when the default is blocking and 0 when it is fire-and-forget.
\<close>

lemma delPattern_storeApp:
  "map_option fst (delPattern appService ''cache:*'' \<lparr>world = storeApp, logs = []\<rparr>) = Some (Inr 0)
   \<and> map_option (\<lambda>r. world (snd r)) (delPattern appService ''cache:*'' \<lparr>world = storeApp, logs = []\<rparr>)
       = Some storeApp
   \<and> map_option fst (delPattern appService ''user:*'' \<lparr>world = storeApp, logs = []\<rparr>) = Some (Inr 2)
   \<and> map_option (\<lambda>r. world (snd r)) (delPattern appService ''user:*'' \<lparr>world = storeApp, logs = []\<rparr>)
       = Some (storeApp\<lparr>entries := [(''app:session:9'', ''null'')]\<rparr>)
   \<and> map_option fst (delPattern appDetachedService ''user:*'' \<lparr>world = storeApp, logs = []\<rparr>)
       = Some (Inr 0)
   \<and> map_option (\<lambda>r. world (snd r))
        (delPattern appDetachedService ''user:*'' \<lparr>world = storeApp, logs = []\<rparr>)
       = Some (storeApp\<lparr>entries := [(''app:session:9'', ''null'')]\<rparr>)"
proof -
  have cl: "client appService = memClient (Some ''app:'')"
           "client appDetachedService = memClient (Some ''app:'')"
    by (simp_all add: appService_def appDetachedService_def RedisCacheService_def)
  have kp: "keyPrefixOf (memClient (Some ''app:'')) = ''app:''"
    by (simp add: keyPrefixOf_def memClient_def)
  have mode: "\<not> fireAndForget appService" "fireAndForget appDetachedService"
    by (simp_all add: appService_def appDetachedService_def RedisCacheService_def)
  from delPattern_within_limit
         [of appService "''cache:*''" "\<lparr>world = storeApp, logs = []\<rparr>" "[]" storeApp]
       scanLoop_storeApp_none cl kp
  have a: "map_option fst (delPattern appService ''cache:*'' \<lparr>world = storeApp, logs = []\<rparr>)
             = Some (Inr 0)
           \<and> map_option (\<lambda>r. world (snd r))
                (delPattern appService ''cache:*'' \<lparr>world = storeApp, logs = []\<rparr>) = Some storeApp"
    by simp
  from delPattern_within_limit
         [of appService "''user:*''" "\<lparr>world = storeApp, logs = []\<rparr>" "[''user:1'', ''user:2'']"
             storeApp]
       scanLoop_storeApp del_storeApp cl kp mode
  have b: "map_option fst (delPattern appService ''user:*'' \<lparr>world = storeApp, logs = []\<rparr>)
             = Some (Inr 2)
           \<and> map_option (\<lambda>r. world (snd r))
                (delPattern appService ''user:*'' \<lparr>world = storeApp, logs = []\<rparr>)
               = Some (storeApp\<lparr>entries := [(''app:session:9'', ''null'')]\<rparr>)"
    by simp
  from delPattern_within_limit
         [of appDetachedService "''user:*''" "\<lparr>world = storeApp, logs = []\<rparr>"
             "[''user:1'', ''user:2'']" storeApp]
       scanLoop_storeApp del_storeApp cl kp mode
  have c: "map_option fst (delPattern appDetachedService ''user:*'' \<lparr>world = storeApp, logs = []\<rparr>)
             = Some (Inr 0)
           \<and> map_option (\<lambda>r. world (snd r))
                (delPattern appDetachedService ''user:*'' \<lparr>world = storeApp, logs = []\<rparr>)
               = Some (storeApp\<lparr>entries := [(''app:session:9'', ''null'')]\<rparr>)"
    by simp
  from a b c show ?thesis
    by blast
qed

lemma scanLoop_scriptOfThree:
  "scanLoop tightClient ''app:'' ''app:user:*'' ''0'' [] scriptOfThree
     = Some (Inr [''user:1'', ''user:2'', ''user:3''], [])"
  by (simp add: scanLoop.simps tightClient_def scriptedClient_def scriptOfThree_def
        keysWithoutPrefix_def)

text \<open>
  Claim C4. When the scan ends with keys, \<^verbatim>\<open>delPattern\<close> is to delete the keys found and to
  return the store's count when the default of the service is blocking, 0 when it is
  fire-and-forget. The code misses this on two inputs. With the key prefix \<^verbatim>\<open>?:\<close> and the
  key \<^verbatim>\<open>a:?:b\<close> in the store, the scan for \<^verbatim>\<open>?:*\<close> finds the key, the prefix is cut out of
  its middle, the \<^verbatim>\<open>DEL\<close> goes to \<^verbatim>\<open>a:b\<close>, and the key found is still in the store after a
  blocking \<^verbatim>\<open>delPattern('*')\<close> that returns 0. With three keys found on an engine that passes
  two arguments, \<^verbatim>\<open>del(...allKeys)\<close> throws \<^verbatim>\<open>RangeError\<close>: that is the outcome under both
  defaults, and no \<^verbatim>\<open>DEL\<close> is issued.
\<close>

theorem delPattern_misses_found_keys:
  "redis_scan (client globService) ''0'' ''?:*'' 100 storeForeign
     = (Inr (''0'', [''a:?:b'']), storeForeign)
   \<and> \<not> fireAndForget globService
   \<and> delPattern globService ''*'' \<lparr>world = storeForeign, logs = []\<rparr>
       = Some (Inr 0, \<lparr>world = storeForeign, logs = []\<rparr>)
   \<and> entries storeForeign = [(''a:?:b'', ''true'')]
   \<and> scanLoop tightClient ''app:'' ''app:user:*'' ''0'' [] scriptOfThree
       = Some (Inr [''user:1'', ''user:2'', ''user:3''], [])
   \<and> maxArguments tightClient = 2
   \<and> \<not> fireAndForget tightService
   \<and> delPattern tightService ''user:*'' \<lparr>world = scriptOfThree, logs = []\<rparr>
       = Some (Inl rangeError,
               \<lparr>world = [], logs = [LogError ''Error deleting pattern user:*:'' rangeError]\<rparr>)
   \<and> fireAndForget tightDetachedService
   \<and> delPattern tightDetachedService ''user:*'' \<lparr>world = scriptOfThree, logs = []\<rparr>
       = Some (Inl rangeError,
               \<lparr>world = [], logs = [LogError ''Error deleting pattern user:*:'' rangeError]\<rparr>)"
proof -
  have cl: "client globService = memClient (Some ''?:'')"
    and quiet: "\<not> debug globService" and mode: "\<not> fireAndForget globService"
    by (simp_all add: globService_def RedisCacheService_def)
  have kp: "keyPrefixOf (memClient (Some ''?:'')) = ''?:''"
    by (simp add: keyPrefixOf_def memClient_def)
  have found: "redis_scan (memClient (Some ''?:'')) ''0'' ''?:*'' 100 storeForeign
                 = (Inr (''0'', [''a:?:b'']), storeForeign)"
    by (simp add: memClient_def storeForeign_def serve_def)
  have loop: "scanLoop (memClient (Some ''?:'')) ''?:'' ''?:*'' ''0'' [] storeForeign
                = Some (Inr [''a:b''], storeForeign)"
    by (subst scanLoop.simps) (simp add: found keysWithoutPrefix_def)
  have del: "redis_del (memClient (Some ''?:'')) [''a:b''] storeForeign = (Inr 0, storeForeign)"
    by (simp add: memClient_def storeForeign_def serve_def physical_def)
  have kept: "delPattern globService ''*'' \<lparr>world = storeForeign, logs = []\<rparr>
                = Some (Inr 0, \<lparr>world = storeForeign, logs = []\<rparr>)"
    using loop del by (simp add: delPattern_def cl kp mode quiet logDebug_def)
  have still: "entries storeForeign = [(''a:?:b'', ''true'')]"
    by (simp add: storeForeign_def)
  have tcl: "client tightService = tightClient" "client tightDetachedService = tightClient"
    and tmode: "\<not> fireAndForget tightService" "fireAndForget tightDetachedService"
    by (simp_all add: tightService_def tightDetachedService_def RedisCacheService_def)
  have tkp: "keyPrefixOf tightClient = ''app:''"
    by (simp add: keyPrefixOf_def tightClient_def scriptedClient_def)
  have limit: "maxArguments tightClient = 2"
    by (simp add: tightClient_def)
  from delPattern_too_many_keys
         [of tightService "''user:*''" "\<lparr>world = scriptOfThree, logs = []\<rparr>"
             "[''user:1'', ''user:2'', ''user:3'']" "[]"]
       scanLoop_scriptOfThree tcl tkp limit
  have thrown: "delPattern tightService ''user:*'' \<lparr>world = scriptOfThree, logs = []\<rparr>
       = Some (Inl rangeError,
               \<lparr>world = [], logs = [LogError ''Error deleting pattern user:*:'' rangeError]\<rparr>)"
    by (simp add: logError_def)
  from delPattern_too_many_keys
         [of tightDetachedService "''user:*''" "\<lparr>world = scriptOfThree, logs = []\<rparr>"
             "[''user:1'', ''user:2'', ''user:3'']" "[]"]
       scanLoop_scriptOfThree tcl tkp limit
  have thrown': "delPattern tightDetachedService ''user:*'' \<lparr>world = scriptOfThree, logs = []\<rparr>
       = Some (Inl rangeError,
               \<lparr>world = [], logs = [LogError ''Error deleting pattern user:*:'' rangeError]\<rparr>)"
    by (simp add: logError_def)
  from found cl mode kept still scanLoop_scriptOfThree limit tmode thrown thrown' show ?thesis
    by simp
qed

subsection \<open>getOrSet\<close>







subsection \<open>getStats\<close>

text \<open>
  Claim C6. \<^verbatim>\<open>getStats\<close> always resolves with a snapshot. When the client is not ready the
  snapshot is \<^verbatim>\<open>{connected: false, keyCount: 0, error: 'Redis not connected'}\<close> and the state
  is the one before the call: no command was issued. When \<^verbatim>\<open>DBSIZE\<close> or \<^verbatim>\<open>INFO\<close> fails, the
  snapshot has \<^verbatim>\<open>connected: false\<close>, \<^verbatim>\<open>keyCount: 0\<close> and the message of the error.
\<close>

theorem getStats_never_throws:
  "(\<exists>snap. fst (getStats svc s) = Inr snap)
   \<and> (redis_status (client svc) (world s) \<noteq> ''ready'' \<longrightarrow>
        getStats svc s
          = (Inr \<lparr> connected = False, keyCount = 0, memoryUsed = None, memoryPeak = None,
                    memoryFragmentationRatio = None, error = Some ''Redis not connected'' \<rparr>, s))
   \<and> (redis_status (client svc) (world s) = ''ready''
        \<and> redis_dbsize (client svc) (world s) = (Inl e, w) \<longrightarrow>
        fst (getStats svc s)
          = Inr \<lparr> connected = False, keyCount = 0, memoryUsed = None, memoryPeak = None,
                   memoryFragmentationRatio = None, error = Some (message e) \<rparr>)
   \<and> (redis_status (client svc) (world s) = ''ready''
        \<and> redis_dbsize (client svc) (world s) = (Inr n, w)
        \<and> redis_info (client svc) ''memory'' w = (Inl e, w') \<longrightarrow>
        fst (getStats svc s)
          = Inr \<lparr> connected = False, keyCount = 0, memoryUsed = None, memoryPeak = None,
                   memoryFragmentationRatio = None, error = Some (message e) \<rparr>)"
proof -
  have resolves: "\<exists>snap. fst (getStats svc s) = Inr snap"
    by (simp add: getStats_def statsCaught_def Let_def split: prod.splits sum.splits)
  have not_ready: "redis_status (client svc) (world s) \<noteq> ''ready'' \<longrightarrow>
        getStats svc s
          = (Inr \<lparr> connected = False, keyCount = 0, memoryUsed = None, memoryPeak = None,
                    memoryFragmentationRatio = None, error = Some ''Redis not connected'' \<rparr>, s)"
    by (simp add: getStats_def)
  have dbsize_fails: "redis_status (client svc) (world s) = ''ready''
        \<and> redis_dbsize (client svc) (world s) = (Inl e, w) \<longrightarrow>
        fst (getStats svc s)
          = Inr \<lparr> connected = False, keyCount = 0, memoryUsed = None, memoryPeak = None,
                   memoryFragmentationRatio = None, error = Some (message e) \<rparr>"
    by (simp add: getStats_def statsCaught_def)
  have info_fails: "redis_status (client svc) (world s) = ''ready''
        \<and> redis_dbsize (client svc) (world s) = (Inr n, w)
        \<and> redis_info (client svc) ''memory'' w = (Inl e, w') \<longrightarrow>
        fst (getStats svc s)
          = Inr \<lparr> connected = False, keyCount = 0, memoryUsed = None, memoryPeak = None,
                   memoryFragmentationRatio = None, error = Some (message e) \<rparr>"
    by (simp add: getStats_def statsCaught_def)
  from resolves not_ready dbsize_fails info_fails show ?thesis
    by blast
qed

theorem getStats_never_throws_witness:
  "redis_status (client plainService) (world \<lparr>world = storeDown, logs = []\<rparr>) \<noteq> ''ready''
   \<and> getStats plainService \<lparr>world = storeDown, logs = []\<rparr>
       = (Inr \<lparr> connected = False, keyCount = 0, memoryUsed = None, memoryPeak = None,
                 memoryFragmentationRatio = None, error = Some ''Redis not connected'' \<rparr>,
          \<lparr>world = storeDown, logs = []\<rparr>)
   \<and> redis_dbsize (client plainService) (world \<lparr>world = storeClosing 0, logs = []\<rparr>)
       = (Inl closed, storeClosing 0)
   \<and> fst (getStats plainService \<lparr>world = storeClosing 0, logs = []\<rparr>)
       = Inr \<lparr> connected = False, keyCount = 0, memoryUsed = None, memoryPeak = None,
                memoryFragmentationRatio = None, error = Some ''Connection is closed.'' \<rparr>
   \<and> redis_info (client plainService) ''memory'' (storeClosing 0) = (Inl closed, storeClosing 0)
   \<and> fst (getStats plainService \<lparr>world = storeClosing 1, logs = []\<rparr>)
       = Inr \<lparr> connected = False, keyCount = 0, memoryUsed = None, memoryPeak = None,
                memoryFragmentationRatio = None, error = Some ''Connection is closed.'' \<rparr>"
proof -
  have down: "redis_status (client plainService) (world \<lparr>world = storeDown, logs = []\<rparr>) \<noteq> ''ready''"
    by (simp add: plainService_def RedisCacheService_def memClient_def storeDown_def)
  have up0: "redis_status (client plainService) (world \<lparr>world = storeClosing 0, logs = []\<rparr>) = ''ready''"
    by (simp add: plainService_def RedisCacheService_def memClient_def storeClosing_def)
  have up1: "redis_status (client plainService) (world \<lparr>world = storeClosing 1, logs = []\<rparr>) = ''ready''"
    by (simp add: plainService_def RedisCacheService_def memClient_def storeClosing_def)
  have dbsize0: "redis_dbsize (client plainService) (world \<lparr>world = storeClosing 0, logs = []\<rparr>)
                   = (Inl closed, storeClosing 0)"
    by (simp add: plainService_def RedisCacheService_def memClient_def storeClosing_def serve_def)
  have dbsize1: "redis_dbsize (client plainService) (world \<lparr>world = storeClosing 1, logs = []\<rparr>)
                   = (Inr 1, storeClosing 0)"
    by (simp add: plainService_def RedisCacheService_def memClient_def storeClosing_def serve_def)
  have info0: "redis_info (client plainService) ''memory'' (storeClosing 0) = (Inl closed, storeClosing 0)"
    by (simp add: plainService_def RedisCacheService_def memClient_def storeClosing_def serve_def)
  from getStats_never_throws [of plainService "\<lparr>world = storeDown, logs = []\<rparr>"] down
  have a: "getStats plainService \<lparr>world = storeDown, logs = []\<rparr>
       = (Inr \<lparr> connected = False, keyCount = 0, memoryUsed = None, memoryPeak = None,
                 memoryFragmentationRatio = None, error = Some ''Redis not connected'' \<rparr>,
          \<lparr>world = storeDown, logs = []\<rparr>)"
    by blast
  from getStats_never_throws
         [of plainService "\<lparr>world = storeClosing 0, logs = []\<rparr>" closed "storeClosing 0"]
       up0 dbsize0
  have b: "fst (getStats plainService \<lparr>world = storeClosing 0, logs = []\<rparr>)
       = Inr \<lparr> connected = False, keyCount = 0, memoryUsed = None, memoryPeak = None,
                memoryFragmentationRatio = None, error = Some ''Connection is closed.'' \<rparr>"
    by (simp add: closed_def)
  from getStats_never_throws
         [of plainService "\<lparr>world = storeClosing 1, logs = []\<rparr>" closed "storeClosing 0" 1
             "storeClosing 0"]
       up1 dbsize1 info0
  have c: "fst (getStats plainService \<lparr>world = storeClosing 1, logs = []\<rparr>)
       = Inr \<lparr> connected = False, keyCount = 0, memoryUsed = None, memoryPeak = None,
                memoryFragmentationRatio = None, error = Some ''Connection is closed.'' \<rparr>"
    by (simp add: closed_def)
  from down a dbsize0 b info0 c show ?thesis
    by blast
qed

subsection \<open>get\<close>

text \<open>
  Claim C7. \<^verbatim>\<open>get\<close> on a key that the store does not hold returns \<^verbatim>\<open>null\<close>, a result and
  not an error; on a key whose payload \<^verbatim>\<open>JSON.parse\<close> rejects, it ends with the error of
  the parse and not with a miss.
\<close>

theorem get_absent_or_undecodable:
  "(redis_get (client svc) key (world s) = (Inr None, w) \<longrightarrow>
      fst (get j svc key s) = Inr (js_null j))
   \<and> (redis_get (client svc) key (world s) = (Inr (Some raw), w) \<and> parse j raw = Inl e \<longrightarrow>
      fst (get j svc key s) = Inl e)"
  by (simp add: get_def Let_def)

theorem get_absent_or_undecodable_witness:
  "redis_get (client plainService) ''gone'' (world \<lparr>world = storeB, logs = []\<rparr>) = (Inr None, storeB)
   \<and> fst (get miniJson plainService ''gone'' \<lparr>world = storeB, logs = []\<rparr>) = Inr JNull
   \<and> redis_get (client plainService) ''bad'' (world \<lparr>world = storeB, logs = []\<rparr>)
       = (Inr (Some ''{oops''), storeB)
   \<and> parse miniJson ''{oops'' = Inl (SyntaxError ''Unexpected token'')
   \<and> fst (get miniJson plainService ''bad'' \<lparr>world = storeB, logs = []\<rparr>)
       = Inl (SyntaxError ''Unexpected token'')"
proof -
  have absent: "redis_get (client plainService) ''gone'' (world \<lparr>world = storeB, logs = []\<rparr>)
                  = (Inr None, storeB)"
    by (simp add: plainService_def RedisCacheService_def memClient_def storeB_def serve_def
          physical_def)
  have present: "redis_get (client plainService) ''bad'' (world \<lparr>world = storeB, logs = []\<rparr>)
                   = (Inr (Some ''{oops''), storeB)"
    by (simp add: plainService_def RedisCacheService_def memClient_def storeB_def serve_def
          physical_def)
  have undecodable: "parse miniJson ''{oops'' = Inl (SyntaxError ''Unexpected token'')"
    by (simp add: miniJson_def)
  from get_absent_or_undecodable
         [of plainService "''gone''" "\<lparr>world = storeB, logs = []\<rparr>" storeB miniJson]
       get_absent_or_undecodable
         [of plainService "''bad''" "\<lparr>world = storeB, logs = []\<rparr>" storeB miniJson
             "''{oops''" "SyntaxError ''Unexpected token''"]
       absent present undecodable
  show ?thesis
    by (simp add: miniJson_def)
qed

subsection \<open>set followed by get\<close>





subsection \<open>The write of getOrSet\<close>

text \<open>
  Claim C9 says that under a fire-and-forget default \<^verbatim>\<open>getOrSet\<close> returns the computed
  value and that a failure of the write is only logged. It fails for a computed value that
  \<^verbatim>\<open>JSON.stringify\<close> rejects: \<^verbatim>\<open>set\<close> stringifies inside its \<^verbatim>\<open>try\<close> block before it looks at
  the mode, and \<^verbatim>\<open>getOrSet\<close> awaits \<^verbatim>\<open>set\<close>, so with a compute function that returns a BigInt
  the outcome is the \<^verbatim>\<open>TypeError\<close> and not the value.
\<close>

theorem getOrSet_write_rejected:
  "fireAndForget detachedService
   \<and> redis_get (client detachedService) ''b'' storeA = (Inr None, storeA)
   \<and> computeBigInt \<lparr>world = storeA, logs = []\<rparr> = (Inr (JBigInt 10), \<lparr>world = storeA, logs = []\<rparr>)
   \<and> getOrSet miniJson detachedService ''b'' computeBigInt None \<lparr>world = storeA, logs = []\<rparr>
       = (Inl (TypeError ''Do not know how to serialize a BigInt''),
          \<lparr>world = storeA,
           logs = [LogError ''Error setting key b:''
                     (TypeError ''Do not know how to serialize a BigInt''),
                   LogError ''Error in getOrSet for key b:''
                     (TypeError ''Do not know how to serialize a BigInt'')]\<rparr>)"
proof -
  have on: "fireAndForget detachedService" and quiet: "\<not> debug detachedService"
    and cl: "client detachedService = memClient None"
    by (simp_all add: detachedService_def RedisCacheService_def)
  have miss: "redis_get (memClient None) ''b'' storeA = (Inr None, storeA)"
    by (simp add: memClient_def storeA_def serve_def physical_def)
  have ran: "computeBigInt \<lparr>world = storeA, logs = []\<rparr>
               = (Inr (JBigInt 10), \<lparr>world = storeA, logs = []\<rparr>)"
    by (simp add: computeBigInt_def)
  have rejected: "stringify miniJson (JBigInt 10)
                    = Inl (TypeError ''Do not know how to serialize a BigInt'')"
    by (simp add: miniJson_def)
  have outcome: "getOrSet miniJson detachedService ''b'' computeBigInt None
                   \<lparr>world = storeA, logs = []\<rparr>
       = (Inl (TypeError ''Do not know how to serialize a BigInt''),
          \<lparr>world = storeA,
           logs = [LogError ''Error setting key b:''
                     (TypeError ''Do not know how to serialize a BigInt''),
                   LogError ''Error in getOrSet for key b:''
                     (TypeError ''Do not know how to serialize a BigInt'')]\<rparr>)"
    using miss ran rejected
    by (simp add: getOrSet_def set_cache_def cl quiet logDebug_def logError_def)
  from on cl miss ran outcome show ?thesis
    by simp
qed

text \<open>
  Claim C9, amended. \<^verbatim>\<open>getOrSet\<close> has no options argument and calls \<^verbatim>\<open>set\<close> without options, so
  the write on a miss runs in the default mode of the service. For a computed value that
  \<^verbatim>\<open>JSON.stringify\<close> accepts: when that default is fire-and-forget, \<^verbatim>\<open>getOrSet\<close> returns the
  computed value whatever the store replies to the \<^verbatim>\<open>SET\<close>, and a failed \<^verbatim>\<open>SET\<close> leaves only
  an entry in the error log; when the default is blocking, a failed \<^verbatim>\<open>SET\<close> is the outcome of
  \<^verbatim>\<open>getOrSet\<close>. For a computed value that \<^verbatim>\<open>JSON.stringify\<close> rejects, the outcome is that
  error under either default, and no \<^verbatim>\<open>SET\<close> is issued.
\<close>

theorem getOrSet_write_mode:
  assumes "redis_get (client svc) key (world s) = (Inr None, w)"
      and "fn (logDebug svc (''GETORSET key: '' @ key @ '' - computing value'') (s\<lparr>world := w\<rparr>))
             = (Inr v, s2)"
  shows "(stringify j v = Inr payload
          \<and> issueSet (client svc) key payload (ttlToUse svc ttl) (world s2) = (r, w3)
          \<and> fireAndForget svc \<longrightarrow>
            fst (getOrSet j svc key fn ttl s) = Inr v
          \<and> world (snd (getOrSet j svc key fn ttl s)) = w3
          \<and> (\<forall>e. r = Inl e \<longrightarrow>
                last (logs (snd (getOrSet j svc key fn ttl s)))
                  = LogError (''Error setting key '' @ key @ '':'') e))
       \<and> (stringify j v = Inr payload
          \<and> issueSet (client svc) key payload (ttlToUse svc ttl) (world s2) = (r, w3)
          \<and> \<not> fireAndForget svc \<longrightarrow>
            fst (getOrSet j svc key fn ttl s) = (case r of Inl e \<Rightarrow> Inl e | Inr _ \<Rightarrow> Inr v)
          \<and> world (snd (getOrSet j svc key fn ttl s)) = w3)
       \<and> (stringify j v = Inl failure \<longrightarrow>
            fst (getOrSet j svc key fn ttl s) = Inl failure
          \<and> world (snd (getOrSet j svc key fn ttl s)) = world s2)"
proof -
  have value_back: "fst (getOrSet j svc key fn ttl s) = Inr v"
    if "stringify j v = Inr payload" "fireAndForget svc"
    using assms that by (simp add: getOrSet_def set_cache_def Let_def split: prod.splits)
  have issued: "world (snd (getOrSet j svc key fn ttl s)) = w3"
    if "stringify j v = Inr payload"
       "issueSet (client svc) key payload (ttlToUse svc ttl) (world s2) = (r, w3)"
    using assms that by (simp add: getOrSet_def set_cache_def Let_def split: sum.splits)
  have logged: "last (logs (snd (getOrSet j svc key fn ttl s)))
                  = LogError (''Error setting key '' @ key @ '':'') e"
    if "stringify j v = Inr payload"
       "issueSet (client svc) key payload (ttlToUse svc ttl) (world s2) = (r, w3)"
       "fireAndForget svc" "r = Inl e" for e
    using assms that by (simp add: getOrSet_def set_cache_def Let_def logError_def)
  have blocking: "fst (getOrSet j svc key fn ttl s) = (case r of Inl e \<Rightarrow> Inl e | Inr _ \<Rightarrow> Inr v)"
    if "stringify j v = Inr payload"
       "issueSet (client svc) key payload (ttlToUse svc ttl) (world s2) = (r, w3)"
       "\<not> fireAndForget svc"
    using assms that by (simp add: getOrSet_def set_cache_def Let_def split: sum.splits)
  have rejected: "fst (getOrSet j svc key fn ttl s) = Inl failure
                  \<and> world (snd (getOrSet j svc key fn ttl s)) = world s2"
    if "stringify j v = Inl failure"
    using assms that by (simp add: getOrSet_def set_cache_def Let_def)
  from value_back issued logged blocking rejected show ?thesis
    by blast
qed

theorem getOrSet_write_mode_witness:
  "fireAndForget detachedService
   \<and> getOrSet miniJson detachedService ''b'' computeFresh (Some 60) \<lparr>world = storeClosing 1, logs = []\<rparr>
       = (Inr (JString ''fresh''),
          \<lparr>world = storeClosing 0,
           logs = [LogInfo ''computing'', LogError ''Error setting key b:'' closed]\<rparr>)
   \<and> \<not> fireAndForget plainService
   \<and> fst (getOrSet miniJson plainService ''b'' computeFresh (Some 60)
             \<lparr>world = storeClosing 1, logs = []\<rparr>) = Inl closed
   \<and> fst (getOrSet miniJson detachedService ''b'' computeBigInt (Some 60)
             \<lparr>world = storeClosing 1, logs = []\<rparr>)
       = Inl (TypeError ''Do not know how to serialize a BigInt'')"
proof -
  let ?s = "\<lparr>world = storeClosing 1, logs = []\<rparr>"
  let ?s1 = "\<lparr>world = storeClosing 0, logs = []\<rparr>"
  let ?s2 = "\<lparr>world = storeClosing 0, logs = [LogInfo ''computing'']\<rparr>"
  let ?payload = "[CHR 0x22] @ ''fresh'' @ [CHR 0x22]"
  have on: "fireAndForget detachedService" and off: "\<not> fireAndForget plainService"
    by (simp_all add: detachedService_def plainService_def RedisCacheService_def)
  have cl: "client detachedService = memClient None" "client plainService = memClient None"
    by (simp_all add: detachedService_def plainService_def RedisCacheService_def)
  have quiet: "\<not> debug detachedService" "\<not> debug plainService"
    by (simp_all add: detachedService_def plainService_def RedisCacheService_def)
  have miss: "redis_get (memClient None) ''b'' (world ?s) = (Inr None, storeClosing 0)"
    by (simp add: memClient_def storeClosing_def serve_def physical_def)
  have ran: "computeFresh (?s\<lparr>world := storeClosing 0\<rparr>) = (Inr (JString ''fresh''), ?s2)"
    by (simp add: computeFresh_def)
  have ran': "computeBigInt (?s\<lparr>world := storeClosing 0\<rparr>) = (Inr (JBigInt 10), ?s1)"
    by (simp add: computeBigInt_def)
  have encoded: "stringify miniJson (JString ''fresh'') = Inr ?payload"
    by (simp add: miniJson_def plain_def)
  have rejected: "stringify miniJson (JBigInt 10)
                    = Inl (TypeError ''Do not know how to serialize a BigInt'')"
    by (simp add: miniJson_def)
  have refused: "issueSet (memClient None) ''b'' ?payload (Some 60) (world ?s2)
                   = (Inl closed, storeClosing 0)"
    by (simp add: issueSet_def memClient_def storeClosing_def serve_def)
  have ttl: "ttlToUse detachedService (Some 60) = Some 60" "ttlToUse plainService (Some 60) = Some 60"
    by (simp_all add: ttlToUse_def)
  from getOrSet_write_mode
         [where svc = detachedService and key = "''b''" and s = ?s and w = "storeClosing 0"
            and fn = computeFresh and v = "JString ''fresh''" and ?s2.0 = ?s2 and j = miniJson
            and payload = ?payload and ttl = "Some 60" and r = "Inl closed"
            and ?w3.0 = "storeClosing 0"]
       miss ran encoded refused on cl quiet ttl
  have a: "fst (getOrSet miniJson detachedService ''b'' computeFresh (Some 60) ?s)
             = Inr (JString ''fresh'')"
    by (simp add: logDebug_def)
  have a': "snd (getOrSet miniJson detachedService ''b'' computeFresh (Some 60) ?s)
              = \<lparr>world = storeClosing 0,
                 logs = [LogInfo ''computing'', LogError ''Error setting key b:'' closed]\<rparr>"
    using miss ran encoded refused on cl quiet ttl
    by (simp add: getOrSet_def set_cache_def logDebug_def logError_def useFireAndForget_def)
  from getOrSet_write_mode
         [where svc = plainService and key = "''b''" and s = ?s and w = "storeClosing 0"
            and fn = computeFresh and v = "JString ''fresh''" and ?s2.0 = ?s2 and j = miniJson
            and payload = ?payload and ttl = "Some 60" and r = "Inl closed"
            and ?w3.0 = "storeClosing 0"]
       miss ran encoded refused off cl quiet ttl
  have b: "fst (getOrSet miniJson plainService ''b'' computeFresh (Some 60) ?s) = Inl closed"
    by (simp add: logDebug_def)
  from getOrSet_write_mode
         [where svc = detachedService and key = "''b''" and s = ?s and w = "storeClosing 0"
            and fn = computeBigInt and v = "JBigInt 10" and ?s2.0 = ?s1 and j = miniJson
            and ttl = "Some 60"
            and failure = "TypeError ''Do not know how to serialize a BigInt''"]
       miss ran' rejected cl quiet
  have c: "fst (getOrSet miniJson detachedService ''b'' computeBigInt (Some 60) ?s)
             = Inl (TypeError ''Do not know how to serialize a BigInt'')"
    by (simp add: logDebug_def)
  from on off a a' b c show ?thesis
    by (simp add: prod_eq_iff)
qed

subsection \<open>delPatterns\<close>

lemma delPatternsLoop_append:
  "delPatternsLoop svc (before @ rest) count s =
     (case delPatternsLoop svc before count s of
        None \<Rightarrow> None
      | Some (Inl e, s') \<Rightarrow> Some (Inl e, s')
      | Some (Inr n, s') \<Rightarrow> delPatternsLoop svc rest n s')"
proof (induction before arbitrary: count s)
  case Nil
  show ?case by simp
next
  case (Cons pattern before)
  show ?case
  proof (cases "delPattern svc pattern s")
    case None
    then show ?thesis by simp
  next
    case (Some outcome)
    obtain r s' where outcome: "outcome = (r, s')"
      by (cases outcome)
    show ?thesis
    proof (cases r)
      case (Inl e)
      with Some outcome show ?thesis by simp
    next
      case (Inr deleted)
      with Some outcome Cons.IH [of "count + deleted" s'] show ?thesis by simp
    qed
  qed
qed

text \<open>
  Claim C10. When \<^verbatim>\<open>delPattern\<close> fails on a pattern of the list after the patterns before it
  were handled, \<^verbatim>\<open>delPatterns\<close> ends with that error. The outcome carries no count, the
  total of the earlier patterns is not logged, and the store is the one the failed
  \<^verbatim>\<open>delPattern\<close> left, reached from the store after the earlier deletions: nothing is undone.
\<close>

theorem delPatterns_not_atomic:
  assumes "delPatternsLoop svc before 0
             (logDebug svc (''DEL patterns: ['' @ join (before @ pattern # rest) @ '']'') s)
             = Some (Inr n, s1)"
      and "delPattern svc pattern s1 = Some (Inl e, s2)"
  shows "delPatterns svc (before @ pattern # rest) s
           = Some (Inl e, logError ''Error deleting patterns:'' e s2)
       \<and> map_option (\<lambda>r. world (snd r)) (delPatterns svc (before @ pattern # rest) s)
           = Some (world s2)"
proof -
  let ?s0 = "logDebug svc (''DEL patterns: ['' @ join (before @ pattern # rest) @ '']'') s"
  from assms have "delPatternsLoop svc (before @ pattern # rest) 0 ?s0 = Some (Inl e, s2)"
    by (simp add: delPatternsLoop_append)
  then have "delPatterns svc (before @ pattern # rest) s
               = Some (Inl e, logError ''Error deleting patterns:'' e s2)"
    by (simp add: delPatterns_def Let_def)
  then show ?thesis
    by simp
qed

lemma scanLoop_storeAppClosing:
  "scanLoop (memClient (Some ''app:'')) ''app:'' (''app:'' @ ''user:*'') ''0'' [] (storeAppClosing 2)
     = Some (Inr [''user:1'', ''user:2''], storeAppClosing 1)"
  by (simp add: scanLoop.simps memClient_def storeAppClosing_def storeApp_def serve_def
        keysWithoutPrefix_def)

lemma del_storeAppClosing:
  "redis_del (memClient (Some ''app:'')) [''user:1'', ''user:2''] (storeAppClosing 1)
     = (Inr 2, (storeAppClosing 0)\<lparr>entries := [(''app:session:9'', ''null'')]\<rparr>)"
  by (simp add: memClient_def storeAppClosing_def storeApp_def serve_def physical_def)

lemma appService_simps:
  "client appService = memClient (Some ''app:'')"
  "\<not> fireAndForget appService"
  "\<not> debug appService"
  "keyPrefixOf (memClient (Some ''app:'')) = ''app:''"
  by (simp_all add: appService_def RedisCacheService_def keyPrefixOf_def memClient_def)

lemma delPattern_storeAppClosing:
  "delPattern appService ''user:*'' \<lparr>world = storeAppClosing 2, logs = []\<rparr>
     = Some (Inr 2, \<lparr>world = (storeAppClosing 0)\<lparr>entries := [(''app:session:9'', ''null'')]\<rparr>,
                     logs = []\<rparr>)"
  using scanLoop_storeAppClosing del_storeAppClosing
  by (simp add: delPattern_def appService_simps logDebug_def)

theorem delPatterns_not_atomic_witness:
  "delPatterns appService [''user:*'', ''session:*''] \<lparr>world = storeAppClosing 2, logs = []\<rparr>
     = Some (Inl closed,
             \<lparr>world = (storeAppClosing 0)\<lparr>entries := [(''app:session:9'', ''null'')]\<rparr>,
              logs = [LogError ''Error deleting pattern session:*:'' closed,
                      LogError ''Error deleting patterns:'' closed]\<rparr>)"
proof -
  let ?s1 = "\<lparr>world = (storeAppClosing 0)\<lparr>entries := [(''app:session:9'', ''null'')]\<rparr>,
              logs = []\<rparr>"
  let ?s2 = "\<lparr>world = (storeAppClosing 0)\<lparr>entries := [(''app:session:9'', ''null'')]\<rparr>,
              logs = [LogError ''Error deleting pattern session:*:'' closed]\<rparr>"
  have earlier: "delPatternsLoop appService [''user:*''] 0
                   (logDebug appService
                      (''DEL patterns: ['' @ join ([''user:*''] @ ''session:*'' # []) @ '']'')
                      \<lparr>world = storeAppClosing 2, logs = []\<rparr>)
                   = Some (Inr 2, ?s1)"
    using delPattern_storeAppClosing by (simp add: logDebug_def appService_simps)
  have refused: "scanLoop (memClient (Some ''app:'')) ''app:'' (''app:'' @ ''session:*'') ''0'' []
                   ((storeAppClosing 0)\<lparr>entries := [(''app:session:9'', ''null'')]\<rparr>)
                   = Some (Inl closed, (storeAppClosing 0)\<lparr>entries := [(''app:session:9'', ''null'')]\<rparr>)"
    by (simp add: scanLoop.simps memClient_def storeAppClosing_def storeApp_def serve_def)
  have failing: "delPattern appService ''session:*'' ?s1 = Some (Inl closed, ?s2)"
    using refused
    by (simp add: delPattern_def appService_simps logError_def)
  from delPatterns_not_atomic [of appService "[''user:*'']" "''session:*''" "[]" _ 2 ?s1 closed ?s2,
         OF earlier failing]
  show ?thesis
    by (simp add: logError_def)
qed

end
